theory Spec2Isabelle
  imports Main "HOL-Library.Word" "HOL-Library.Sublist"
begin

section \<open>The New API exporter: channels, tokens and users to providers, keys and masters\<close>

text \<open>
  A shallow embedding of the export logic of package \<^verbatim>\<open>newapi\<close> (the exporter, the channel
  type table, the status enums and the table models) and of package \<^verbatim>\<open>schema\<close> (the
  export result and its append operations).

  Conventions.
  \<^item> A Go \<^verbatim>\<open>string\<close> is a sequence of bytes: \<^typ>\<open>string\<close>.
  \<^item> Go's signed \<^verbatim>\<open>int\<close> and \<^verbatim>\<open>int64\<close> are modelled by their integer value
    (\<^typ>\<open>int\<close>): the code only copies, compares and prints them, and its one addition
    (\<^verbatim>\<open>i+1\<close> on a slice index) cannot overflow. The conversions between them are the
    identity on a 64-bit platform.
  \<^item> Go's \<^verbatim>\<open>uint\<close> is a 64-bit word, because \<^verbatim>\<open>int(*ch.Weight)\<close> reinterprets it as a
    signed value (\<^term>\<open>sint\<close>).
  \<^item> A pointer field (\<^verbatim>\<open>*string\<close>, \<^verbatim>\<open>*int64\<close>) is an \<^typ>\<open>'a option\<close>, \<^verbatim>\<open>nil\<close> being
    \<^term>\<open>None\<close>; a nil slice is the empty list.
  \<^item> The exporter mutates \<^verbatim>\<open>e.result\<close>; here every function takes the result and returns
    the updated one.
  \<^item> A call that returns \<^verbatim>\<open>(value, error)\<close> returns a sum, \<^term>\<open>Inl\<close> carrying the error.
\<close>

subsection \<open>Library functions of Go used by the exporter\<close>

text \<open>
  \<^verbatim>\<open>strings.Split(s, sep)\<close> for a separator of one byte (the exporter splits on
  \<^verbatim>\<open>"\n"\<close> and on \<^verbatim>\<open>","\<close>): the pieces between the occurrences of the separator, one more
  than there are occurrences.
\<close>

function strings_Split :: "string \<Rightarrow> char \<Rightarrow> string list" where
  "strings_Split s sep =
     (case dropWhile (\<lambda>c. c \<noteq> sep) s of
        [] \<Rightarrow> [s]
      | _ # rest \<Rightarrow> takeWhile (\<lambda>c. c \<noteq> sep) s # strings_Split rest sep)"
  by pat_completeness auto
termination
proof (relation "measure (\<lambda>(s, sep). length s)")
  show "wf (measure (\<lambda>(s, sep). length s))" by simp
next
  fix s :: string and sep x21 x22
  assume "dropWhile (\<lambda>c. c \<noteq> sep) s = x21 # x22"
  then have "length (x21 # x22) \<le> length s"
    by (metis length_dropWhile_le)
  then show "((x22, sep), (s, sep)) \<in> measure (\<lambda>(s, sep). length s)"
    by simp
qed

declare strings_Split.simps [simp del]

text \<open>
  \<^verbatim>\<open>unicode.IsSpace\<close> holds of the code points U+0009 to U+000D, U+0020, U+0085, U+00A0,
  U+1680, U+2000 to U+200A, U+2028, U+2029, U+202F, U+205F and U+3000. These are their
  UTF-8 encodings. \<^verbatim>\<open>strings.TrimSpace\<close> decodes the string as UTF-8 (an invalid byte
  decodes to U+FFFD with width 1, which is not a space), so a leading or trailing rune is
  a space exactly when the string starts or ends with one of these byte sequences.
\<close>

definition spaceEncodings :: "string list" where
  "spaceEncodings =
     [[CHR 0x09], [CHR 0x0A], [CHR 0x0B], [CHR 0x0C], [CHR 0x0D], [CHR 0x20],
      [CHR 0xC2, CHR 0x85], [CHR 0xC2, CHR 0xA0],
      [CHR 0xE1, CHR 0x9A, CHR 0x80],
      [CHR 0xE2, CHR 0x80, CHR 0x80], [CHR 0xE2, CHR 0x80, CHR 0x81],
      [CHR 0xE2, CHR 0x80, CHR 0x82], [CHR 0xE2, CHR 0x80, CHR 0x83],
      [CHR 0xE2, CHR 0x80, CHR 0x84], [CHR 0xE2, CHR 0x80, CHR 0x85],
      [CHR 0xE2, CHR 0x80, CHR 0x86], [CHR 0xE2, CHR 0x80, CHR 0x87],
      [CHR 0xE2, CHR 0x80, CHR 0x88], [CHR 0xE2, CHR 0x80, CHR 0x89],
      [CHR 0xE2, CHR 0x80, CHR 0x8A],
      [CHR 0xE2, CHR 0x80, CHR 0xA8], [CHR 0xE2, CHR 0x80, CHR 0xA9],
      [CHR 0xE2, CHR 0x80, CHR 0xAF],
      [CHR 0xE2, CHR 0x81, CHR 0x9F],
      [CHR 0xE3, CHR 0x80, CHR 0x80]]"

text \<open>The encoding of a space that the string starts with, if any.\<close>

definition leadingSpace :: "string \<Rightarrow> string option" where
  "leadingSpace s = List.find (\<lambda>e. prefix e s) spaceEncodings"

definition trailingSpace :: "string \<Rightarrow> string option" where
  "trailingSpace s = List.find (\<lambda>e. suffix e s) spaceEncodings"

lemma spaceEncodings_nonempty: "e \<in> set spaceEncodings \<Longrightarrow> e \<noteq> []"
  by (auto simp: spaceEncodings_def)

lemma leadingSpace_Some:
  assumes "leadingSpace s = Some e"
  shows "e \<in> set spaceEncodings" and "prefix e s"
  using assms by (auto simp: leadingSpace_def find_Some_iff)

lemma trailingSpace_Some:
  assumes "trailingSpace s = Some e"
  shows "e \<in> set spaceEncodings" and "suffix e s"
  using assms by (auto simp: trailingSpace_def find_Some_iff)

text \<open>\<^verbatim>\<open>strings.TrimLeftFunc(s, unicode.IsSpace)\<close>: drop leading spaces, rune by rune.\<close>

function TrimLeftSpace :: "string \<Rightarrow> string" where
  "TrimLeftSpace s =
     (case leadingSpace s of
        None \<Rightarrow> s
      | Some e \<Rightarrow> TrimLeftSpace (drop (length e) s))"
  by pat_completeness auto
termination
proof (relation "measure length")
  show "wf (measure length)" by simp
next
  fix s e
  assume h: "leadingSpace s = Some e"
  have "e \<noteq> []"
    using leadingSpace_Some(1) [OF h] by (rule spaceEncodings_nonempty)
  moreover have "length e \<le> length s"
    using leadingSpace_Some(2) [OF h] by (rule prefix_length_le)
  ultimately show "(drop (length e) s, s) \<in> measure length"
    by (cases e) auto
qed

declare TrimLeftSpace.simps [simp del]

text \<open>\<^verbatim>\<open>strings.TrimRightFunc(s, unicode.IsSpace)\<close>: drop trailing spaces, rune by rune.\<close>

function TrimRightSpace :: "string \<Rightarrow> string" where
  "TrimRightSpace s =
     (case trailingSpace s of
        None \<Rightarrow> s
      | Some e \<Rightarrow> TrimRightSpace (take (length s - length e) s))"
  by pat_completeness auto
termination
proof (relation "measure length")
  show "wf (measure length)" by simp
next
  fix s e
  assume h: "trailingSpace s = Some e"
  have "e \<noteq> []"
    using trailingSpace_Some(1) [OF h] by (rule spaceEncodings_nonempty)
  moreover have "length e \<le> length s"
    using trailingSpace_Some(2) [OF h] by (rule suffix_length_le)
  ultimately show "(take (length s - length e) s, s) \<in> measure length"
    by (cases e) auto
qed

declare TrimRightSpace.simps [simp del]

text \<open>\<^verbatim>\<open>strings.TrimSpace\<close>: both ends.\<close>

definition strings_TrimSpace :: "string \<Rightarrow> string" where
  "strings_TrimSpace s = TrimRightSpace (TrimLeftSpace s)"

text \<open>The verb \<^verbatim>\<open>%d\<close> of \<^verbatim>\<open>fmt.Sprintf\<close> on an integer: decimal, with a minus sign.\<close>

definition digitChar :: "nat \<Rightarrow> char" where
  "digitChar d = ''0123456789'' ! d"

function natDigits :: "nat \<Rightarrow> string" where
  "natDigits n = (if n < 10 then [digitChar n] else natDigits (n div 10) @ [digitChar (n mod 10)])"
  by pat_completeness auto
termination
  by (relation "measure id") auto

declare natDigits.simps [simp del]

definition fmt_d :: "int \<Rightarrow> string" where
  "fmt_d i = (if i < 0 then CHR ''-'' # natDigits (nat (- i)) else natDigits (nat i))"

text \<open>The verb \<^verbatim>\<open>%v\<close> on a \<^verbatim>\<open>[]string\<close>: the elements between brackets, separated by spaces.\<close>

fun joinSpace :: "string list \<Rightarrow> string" where
  "joinSpace [] = []"
| "joinSpace [x] = x"
| "joinSpace (x # y # ys) = x @ '' '' @ joinSpace (y # ys)"

definition fmt_v_strings :: "string list \<Rightarrow> string" where
  "fmt_v_strings xs = ''['' @ joinSpace xs @ '']''"

text \<open>
  Errors. A failure of the database layer is an opaque error with a message;
  \<^verbatim>\<open>fmt.Errorf("...: %w", err)\<close> wraps an error behind a prefix, and its message is the
  prefix followed by the message of the wrapped error.
\<close>

datatype error = SourceError string | Wrapped string error

fun Error :: "error \<Rightarrow> string" where
  "Error (SourceError msg) = msg"
| "Error (Wrapped pre err) = pre @ Error err"

fun Unwrap :: "error \<Rightarrow> error option" where
  "Unwrap (SourceError msg) = None"
| "Unwrap (Wrapped pre err) = Some err"

text \<open>An instant: \<^verbatim>\<open>time.Unix(sec, nsec)\<close>.\<close>

datatype Time = time_Unix int int

subsection \<open>The source tables (models of the New API database)\<close>

type_synonym go_uint = "64 word"

text \<open>
  The \<^verbatim>\<open>channels\<close> table. The record holds the columns that the exporter reads; the other
  columns (test model, timestamps, balance, tag, remark, channel info and so on) are read
  only by \<^verbatim>\<open>json.Marshal\<close> when the backup of the channel is made.
\<close>

record Channel =
  ch_ID :: int
  ch_Type :: int
  ch_Key :: string
  ch_Status :: int
  ch_Name :: string
  ch_Weight :: "go_uint option"
  ch_BaseURL :: "string option"
  ch_Models :: string
  ch_Group :: string
  ch_ModelMapping :: "string option"
  ch_StatusCodeMapping :: "string option"
  ch_Priority :: "int option"
  ch_AutoBan :: "int option"
  ch_Setting :: "string option"
  ch_ParamOverride :: "string option"
  ch_HeaderOverride :: "string option"

record Token =
  tok_ID :: int
  tok_UserID :: int
  tok_Key :: string
  tok_Status :: int
  tok_Name :: string
  tok_ExpiredTime :: int
  tok_RemainQuota :: int
  tok_UnlimitedQuota :: bool
  tok_ModelLimitsEnabled :: bool
  tok_ModelLimits :: string
  tok_AllowIPs :: "string option"
  tok_UsedQuota :: int
  tok_Group :: string

record User =
  usr_ID :: int
  usr_Username :: string
  usr_Status :: int
  usr_Email :: string
  usr_Group :: string

record Ability =
  ab_Group :: string
  ab_Model :: string
  ab_ChannelID :: int
  ab_Enabled :: bool

text \<open>\<^verbatim>\<open>TimestampToTime\<close>: no instant for the timestamps \<open>-1\<close> and \<open>0\<close>.\<close>

definition TimestampToTime :: "int \<Rightarrow> Time option" where
  "TimestampToTime ts = (if ts = -1 \<or> ts = 0 then None else Some (time_Unix ts 0))"

subsection \<open>The enum mappers\<close>

text \<open>\<^verbatim>\<open>channelTypeMapping\<close>, from the channel type constants to the provider types.\<close>

definition channelTypeMapping :: "(int \<times> string) list" where
  "channelTypeMapping =
     [(0, ''custom''), (1, ''openai''), (2, ''midjourney''), (3, ''azure''), (4, ''ollama''),
      (5, ''midjourney''), (6, ''openai''), (7, ''openai''), (8, ''custom''), (9, ''openai''),
      (10, ''openai''), (11, ''palm''), (12, ''openai''), (13, ''openai''), (14, ''anthropic''),
      (15, ''baidu''), (16, ''zhipu''), (17, ''ali''), (18, ''xunfei''), (19, ''360''),
      (20, ''openrouter''), (21, ''openai''), (22, ''openai''), (23, ''tencent''),
      (24, ''gemini''), (25, ''moonshot''), (26, ''zhipu''), (27, ''perplexity''),
      (31, ''lingyiwanwu''), (33, ''aws''), (34, ''cohere''), (35, ''minimax''),
      (36, ''suno''), (37, ''dify''), (38, ''jina''), (39, ''cloudflare''),
      (40, ''siliconflow''), (41, ''vertex''), (42, ''mistral''), (43, ''deepseek''),
      (44, ''mokaai''), (45, ''volcengine''), (46, ''baidu''), (47, ''xinference''),
      (48, ''xai''), (49, ''coze''), (50, ''kling''), (51, ''jimeng''), (52, ''vidu''),
      (53, ''submodel''), (54, ''doubao''), (55, ''openai''), (56, ''replicate'')]"

definition ToProviderType :: "int \<Rightarrow> string \<times> bool" where
  "ToProviderType t =
     (case map_of channelTypeMapping t of
        None \<Rightarrow> (''custom'', False)
      | Some providerType \<Rightarrow> (providerType, True))"

definition MapChannelType :: "int \<Rightarrow> string \<times> bool" where
  "MapChannelType typeID = ToProviderType typeID"

definition MapUserStatus :: "int \<Rightarrow> string" where
  "MapUserStatus s = (if s = 1 then ''active'' else if s = 2 then ''suspended'' else ''suspended'')"

definition MapTokenStatus :: "int \<Rightarrow> string" where
  "MapTokenStatus s =
     (if s = 1 then ''active''
      else if s = 2 then ''disabled''
      else if s = 3 then ''expired''
      else if s = 4 then ''exhausted''
      else ''disabled'')"

definition MapChannelStatus :: "int \<Rightarrow> string" where
  "MapChannelStatus s =
     (if s = 1 then ''active''
      else if s = 2 \<or> s = 3 \<or> s = 0 then ''disabled''
      else ''disabled'')"

subsection \<open>The export schema\<close>

record Provider =
  p_OriginalID :: int
  p_Name :: string
  p_Type :: string
  p_BaseURL :: string
  p_APIKey :: string
  p_Models :: "string list"
  p_PrimaryGroup :: string
  p_AllGroups :: "string list"
  p_Weight :: int
  p_Priority :: int
  p_Status :: string
  p_AutoBan :: bool
  p_IsMultiKey :: bool
  p_MultiKeyIndex :: int
  p_OriginalName :: string
  p_Original :: "string option"

record Master =
  m_Name :: string
  m_Group :: string
  m_Namespaces :: "string list"
  m_DefaultNamespace :: string
  m_MaxChildKeys :: int
  m_GlobalQPS :: int
  m_Status :: string
  m_SourceUserID :: int
  m_SourceEmail :: string

record Key =
  k_MasterRef :: string
  k_OriginalToken :: string
  k_Group :: string
  k_Status :: string
  k_Scopes :: "string list"
  k_Namespaces :: "string list"
  k_ModelLimitsEnabled :: bool
  k_ModelLimits :: "string list"
  k_ExpiresAt :: "Time option"
  k_AllowIPs :: "string list"
  k_QuotaLimit :: "int option"
  k_QuotaUsed :: "int option"
  k_UnlimitedQuota :: bool
  k_OriginalID :: int
  k_TokenPlaintextAvailable :: bool

record Binding =
  b_Namespace :: string
  b_RouteGroup :: string
  b_Model :: string
  b_Status :: string

record Source =
  src_Type :: string
  src_Version :: string
  src_ExportedAt :: Time

record Data =
  Providers :: "Provider list"
  Masters :: "Master list"
  Keys :: "Key list"
  Bindings :: "Binding list"

record ExportResult =
  Version :: string
  Source :: Source
  Data :: Data
  Warnings :: "string list"

text \<open>\<^verbatim>\<open>NewExportResult\<close>; the argument is the value of \<^verbatim>\<open>time.Now()\<close>.\<close>

definition NewExportResult :: "Time \<Rightarrow> ExportResult" where
  "NewExportResult now =
     \<lparr>Version = ''1.0.0'',
      Source = \<lparr>src_Type = ''newapi'', src_Version = ''unknown'', src_ExportedAt = now\<rparr>,
      Data = \<lparr>Providers = [], Masters = [], Keys = [], Bindings = []\<rparr>,
      Warnings = []\<rparr>"

definition AddWarning :: "ExportResult \<Rightarrow> string \<Rightarrow> ExportResult" where
  "AddWarning r msg = r\<lparr>Warnings := Warnings r @ [msg]\<rparr>"

definition AddProvider :: "ExportResult \<Rightarrow> Provider \<Rightarrow> ExportResult" where
  "AddProvider r p = r\<lparr>Data := (Data r)\<lparr>Providers := Providers (Data r) @ [p]\<rparr>\<rparr>"

definition AddMaster :: "ExportResult \<Rightarrow> Master \<Rightarrow> ExportResult" where
  "AddMaster r m = r\<lparr>Data := (Data r)\<lparr>Masters := Masters (Data r) @ [m]\<rparr>\<rparr>"

definition AddKey :: "ExportResult \<Rightarrow> Key \<Rightarrow> ExportResult" where
  "AddKey r k = r\<lparr>Data := (Data r)\<lparr>Keys := Keys (Data r) @ [k]\<rparr>\<rparr>"

definition AddBinding :: "ExportResult \<Rightarrow> Binding \<Rightarrow> ExportResult" where
  "AddBinding r b = r\<lparr>Data := (Data r)\<lparr>Bindings := Bindings (Data r) @ [b]\<rparr>\<rparr>"

subsection \<open>The parsing helpers\<close>

text \<open>
  The loop that \<^verbatim>\<open>parseKeys\<close>, \<^verbatim>\<open>parseGroups\<close> and \<^verbatim>\<open>parseModels\<close> share: trim every
  piece and append the ones that are not empty.
\<close>

fun appendTrimmed :: "string list \<Rightarrow> string list \<Rightarrow> string list" where
  "appendTrimmed acc [] = acc"
| "appendTrimmed acc (line # lines) =
     (let line' = strings_TrimSpace line
      in if line' \<noteq> [] then appendTrimmed (acc @ [line']) lines else appendTrimmed acc lines)"

definition parseKeys :: "string \<Rightarrow> string list" where
  "parseKeys key =
     (if key = [] then []
      else let keys = appendTrimmed [] (strings_Split key (CHR 0x0A))
           in if length keys = 0 then [key] else keys)"

definition parseGroups :: "string \<Rightarrow> string list" where
  "parseGroups grp =
     (if grp = [] then [''default'']
      else let groups = appendTrimmed [] (strings_Split grp CHR '','')
           in if length groups = 0 then [''default''] else groups)"

definition parseModels :: "string \<Rightarrow> string list" where
  "parseModels models =
     (if models = [] then []
      else appendTrimmed [] (strings_Split models CHR '',''))"

subsection \<open>Channels to providers\<close>

text \<open>The words \<^verbatim>\<open>Channel '%s' (ID=%d)\<close> that start every warning about a channel.\<close>

definition quoted :: "string \<Rightarrow> string" where
  "quoted s = CHR 0x27 # s @ [CHR 0x27]"

definition channelRef :: "Channel \<Rightarrow> string" where
  "channelRef ch = ''Channel '' @ quoted (ch_Name ch) @ '' (ID='' @ fmt_d (ch_ID ch) @ '')''"

definition unknownTypeWarning :: "Channel \<Rightarrow> string" where
  "unknownTypeWarning ch =
     channelRef ch @ '' has unknown type '' @ fmt_d (ch_Type ch) @ '', mapped to ''
       @ quoted ''custom''"

definition nonEmptyPtr :: "string option \<Rightarrow> bool" where
  "nonEmptyPtr p = (case p of None \<Rightarrow> False | Some s \<Rightarrow> s \<noteq> [])"

definition checkUnmappableFields :: "ExportResult \<Rightarrow> Channel \<Rightarrow> ExportResult" where
  "checkUnmappableFields result ch =
     (let r1 = (case ch_Priority ch of
                  None \<Rightarrow> result
                | Some priority \<Rightarrow>
                    if priority \<noteq> 0
                    then AddWarning result (channelRef ch @ '' has priority='' @ fmt_d priority
                           @ '' which is not supported in EZ-API'')
                    else result);
          r2 = (if nonEmptyPtr (ch_ModelMapping ch)
                then AddWarning r1 (channelRef ch
                       @ '' has model_mapping which is not migrated. Use EZ-API Binding instead.'')
                else r1);
          r3 = (if nonEmptyPtr (ch_StatusCodeMapping ch)
                then AddWarning r2 (channelRef ch
                       @ '' has status_code_mapping which is not supported in EZ-API'')
                else r2);
          r4 = (if nonEmptyPtr (ch_Setting ch)
                then AddWarning r3 (channelRef ch @ '' has custom settings which are not migrated'')
                else r3);
          r5 = (if nonEmptyPtr (ch_ParamOverride ch)
                then AddWarning r4 (channelRef ch
                       @ '' has param_override which is not supported in EZ-API'')
                else r4);
          r6 = (if nonEmptyPtr (ch_HeaderOverride ch)
                then AddWarning r5 (channelRef ch
                       @ '' has header_override which is not supported in EZ-API'')
                else r5);
          groups = parseGroups (ch_Group ch)
      in if length groups > 1
         then AddWarning r6 (channelRef ch @ '' belongs to multiple groups '' @ fmt_v_strings groups
                @ ''. Only '' @ quoted (hd groups)
                @ '' is used as primary group. Consider creating Bindings for other groups.'')
         else r6)"

text \<open>
  \<^verbatim>\<open>createOriginalBackup\<close>. \<^verbatim>\<open>json.Marshal\<close> is a parameter of the model: a function from
  the channel to its JSON text or to an error.
\<close>

definition createOriginalBackup :: "(Channel \<Rightarrow> error + string) \<Rightarrow> Channel \<Rightarrow> string option" where
  "createOriginalBackup jsonMarshal ch =
     (case jsonMarshal ch of Inl err \<Rightarrow> None | Inr data \<Rightarrow> Some data)"

text \<open>
  The loop \<^verbatim>\<open>for i, key := range keys\<close> of \<^verbatim>\<open>channelToProviders\<close>. The argument
  \<open>base\<close> is the provider literal with the fields that do not depend on the key.
\<close>

fun providersLoop ::
  "Channel \<Rightarrow> bool \<Rightarrow> Provider \<Rightarrow> nat \<Rightarrow> string list \<Rightarrow> Provider list \<Rightarrow> Provider list" where
  "providersLoop ch isMultiKey base i [] providers = providers"
| "providersLoop ch isMultiKey base i (key # keys) providers =
     (let name = (if isMultiKey \<and> i > 0
                  then ch_Name ch @ ''-'' @ fmt_d (int (i + 1))
                  else ch_Name ch);
          p = base\<lparr>p_Name := name, p_APIKey := key\<rparr>;
          p' = (if isMultiKey
                then p\<lparr>p_MultiKeyIndex := int (i + 1), p_OriginalName := ch_Name ch\<rparr>
                else p)
      in providersLoop ch isMultiKey base (i + 1) keys (providers @ [p']))"

definition channelToProviders ::
  "(Channel \<Rightarrow> error + string) \<Rightarrow> ExportResult \<Rightarrow> Channel \<Rightarrow> Provider list \<times> ExportResult" where
  "channelToProviders jsonMarshal result ch =
     (let keys = parseKeys (ch_Key ch);
          isMultiKey = length keys > 1;
          groups = parseGroups (ch_Group ch);
          primaryGroup = hd groups;
          providerType = fst (MapChannelType (ch_Type ch));
          typeOK = snd (MapChannelType (ch_Type ch));
          result1 = (if \<not> typeOK then AddWarning result (unknownTypeWarning ch) else result);
          status = MapChannelStatus (ch_Status ch);
          baseURL = (case ch_BaseURL ch of None \<Rightarrow> [] | Some u \<Rightarrow> u);
          weight = (if (case ch_Weight ch of None \<Rightarrow> False | Some w \<Rightarrow> w > 0)
                    then sint (the (ch_Weight ch))
                    else if (case ch_Priority ch of None \<Rightarrow> False | Some pr \<Rightarrow> pr > 0)
                    then the (ch_Priority ch)
                    else 1);
          priority = (if (case ch_Priority ch of None \<Rightarrow> False | Some pr \<Rightarrow> pr > 0)
                      then the (ch_Priority ch)
                      else 0);
          autoBan = (case ch_AutoBan ch of None \<Rightarrow> True | Some a \<Rightarrow> a = 1);
          models = parseModels (ch_Models ch);
          original = createOriginalBackup jsonMarshal ch;
          result2 = checkUnmappableFields result1 ch;
          base = \<lparr>p_OriginalID = ch_ID ch, p_Name = [], p_Type = providerType,
                  p_BaseURL = baseURL, p_APIKey = [], p_Models = models,
                  p_PrimaryGroup = primaryGroup, p_AllGroups = groups, p_Weight = weight,
                  p_Priority = priority, p_Status = status, p_AutoBan = autoBan,
                  p_IsMultiKey = isMultiKey, p_MultiKeyIndex = 0, p_OriginalName = [],
                  p_Original = original\<rparr>
      in (providersLoop ch isMultiKey base 0 keys [], result2))"

text \<open>
  The database connector: each method runs one query; the model holds the answer of each
  query, a list of rows or an error.
\<close>

record Connector =
  GetAllChannels :: "error + Channel list"
  GetUsersWithTokens :: "error + User list"
  GetTokensByUserID :: "int \<Rightarrow> error + Token list"
  GetAllAbilities :: "error + Ability list"

fun channelsLoop ::
  "(Channel \<Rightarrow> error + string) \<Rightarrow> ExportResult \<Rightarrow> Channel list \<Rightarrow> ExportResult" where
  "channelsLoop jsonMarshal result [] = result"
| "channelsLoop jsonMarshal result (ch # channels) =
     (let (providers, result1) = channelToProviders jsonMarshal result ch
      in channelsLoop jsonMarshal (foldl AddProvider result1 providers) channels)"

definition exportChannels ::
  "(Channel \<Rightarrow> error + string) \<Rightarrow> Connector \<Rightarrow> ExportResult \<Rightarrow> error + ExportResult" where
  "exportChannels jsonMarshal connector result =
     (case GetAllChannels connector of
        Inl err \<Rightarrow> Inl err
      | Inr channels \<Rightarrow> Inr (channelsLoop jsonMarshal result channels))"

subsection \<open>Users and tokens to masters and keys\<close>

definition userToMaster :: "User \<Rightarrow> Master" where
  "userToMaster user =
     \<lparr>m_Name = usr_Username user, m_Group = usr_Group user, m_Namespaces = [usr_Group user],
      m_DefaultNamespace = usr_Group user, m_MaxChildKeys = 10, m_GlobalQPS = 3,
      m_Status = MapUserStatus (usr_Status user), m_SourceUserID = usr_ID user,
      m_SourceEmail = usr_Email user\<rparr>"

definition tokenToKey :: "Token \<Rightarrow> string \<Rightarrow> Key" where
  "tokenToKey token masterRef =
     (let key = \<lparr>k_MasterRef = masterRef, k_OriginalToken = tok_Key token,
                 k_Group = tok_Group token, k_Status = MapTokenStatus (tok_Status token),
                 k_Scopes = [''chat:*'', ''completions:*''], k_Namespaces = [tok_Group token],
                 k_ModelLimitsEnabled = tok_ModelLimitsEnabled token, k_ModelLimits = [],
                 k_ExpiresAt = None, k_AllowIPs = [], k_QuotaLimit = None, k_QuotaUsed = None,
                 k_UnlimitedQuota = tok_UnlimitedQuota token, k_OriginalID = tok_ID token,
                 k_TokenPlaintextAvailable = True\<rparr>;
          key1 = (if tok_ModelLimitsEnabled token \<and> tok_ModelLimits token \<noteq> []
                  then key\<lparr>k_ModelLimits := parseModels (tok_ModelLimits token)\<rparr>
                  else key);
          key2 = (if tok_ExpiredTime token > 0 \<and> tok_ExpiredTime token \<noteq> -1
                  then key1\<lparr>k_ExpiresAt := TimestampToTime (tok_ExpiredTime token)\<rparr>
                  else key1);
          key3 = (case tok_AllowIPs token of
                    None \<Rightarrow> key2
                  | Some ips \<Rightarrow>
                      if ips \<noteq> []
                      then key2\<lparr>k_AllowIPs := map strings_TrimSpace (strings_Split ips CHR '','')\<rparr>
                      else key2)
      in if \<not> tok_UnlimitedQuota token
         then key3\<lparr>k_QuotaLimit := Some (tok_RemainQuota token),
                    k_QuotaUsed := Some (tok_UsedQuota token)\<rparr>
         else key3)"

definition tokensWarning :: "User \<Rightarrow> error \<Rightarrow> string" where
  "tokensWarning user err =
     ''Failed to get tokens for user '' @ quoted (usr_Username user) @ '' (ID=''
       @ fmt_d (usr_ID user) @ ''): '' @ Error err"

text \<open>
  The loop over the users of \<^verbatim>\<open>exportUsersAndTokens\<close>, with the map from user ids to
  master names that it fills.
\<close>

fun usersLoop ::
  "Connector \<Rightarrow> (int \<rightharpoonup> string) \<Rightarrow> ExportResult \<Rightarrow> User list \<Rightarrow> ExportResult" where
  "usersLoop connector masterMap result [] = result"
| "usersLoop connector masterMap result (user # users) =
     (let master = userToMaster user;
          result1 = AddMaster result master;
          masterMap1 = masterMap(usr_ID user \<mapsto> m_Name master)
      in case GetTokensByUserID connector (usr_ID user) of
           Inl err \<Rightarrow>
             usersLoop connector masterMap1 (AddWarning result1 (tokensWarning user err)) users
         | Inr tokens \<Rightarrow>
             usersLoop connector masterMap1
               (foldl (\<lambda>r token. AddKey r (tokenToKey token (m_Name master))) result1 tokens)
               users)"

definition exportUsersAndTokens :: "Connector \<Rightarrow> ExportResult \<Rightarrow> error + ExportResult" where
  "exportUsersAndTokens connector result =
     (case GetUsersWithTokens connector of
        Inl err \<Rightarrow> Inl (Wrapped ''failed to get users: '' err)
      | Inr users \<Rightarrow> Inr (usersLoop connector Map.empty result users))"

subsection \<open>Abilities to bindings\<close>

definition abilityToBinding :: "Ability \<Rightarrow> Binding" where
  "abilityToBinding ab =
     \<lparr>b_Namespace = ab_Group ab, b_RouteGroup = ab_Group ab, b_Model = ab_Model ab,
      b_Status = (if \<not> ab_Enabled ab then ''disabled'' else ''active'')\<rparr>"

definition exportAbilities :: "Connector \<Rightarrow> ExportResult \<Rightarrow> error + ExportResult" where
  "exportAbilities connector result =
     (case GetAllAbilities connector of
        Inl err \<Rightarrow> Inl err
      | Inr abilities \<Rightarrow> Inr (foldl (\<lambda>r ab. AddBinding r (abilityToBinding ab)) result abilities))"

subsection \<open>The exporter\<close>

record ExporterConfig =
  IncludeTokens :: bool
  IncludeAbilities :: bool
  Verbose :: bool

definition DefaultExporterConfig :: ExporterConfig where
  "DefaultExporterConfig = \<lparr>IncludeTokens = True, IncludeAbilities = False, Verbose = False\<rparr>"

record Exporter =
  connector :: Connector
  config :: ExporterConfig
  result :: ExportResult

text \<open>\<^verbatim>\<open>NewExporter\<close>; the last argument is the value of \<^verbatim>\<open>time.Now()\<close>.\<close>

definition NewExporter :: "Connector \<Rightarrow> ExporterConfig \<Rightarrow> Time \<Rightarrow> Exporter" where
  "NewExporter conn cfg now = \<lparr>connector = conn, config = cfg, result = NewExportResult now\<rparr>"

text \<open>\<^verbatim>\<open>Export\<close>: the three phases; \<^term>\<open>Inl\<close> is the return of \<^verbatim>\<open>(nil, err)\<close>.\<close>

definition Export :: "(Channel \<Rightarrow> error + string) \<Rightarrow> Exporter \<Rightarrow> error + ExportResult" where
  "Export jsonMarshal e =
     (case exportChannels jsonMarshal (connector e) (result e) of
        Inl err \<Rightarrow> Inl (Wrapped ''failed to export channels: '' err)
      | Inr r1 \<Rightarrow>
          (case (if IncludeTokens (config e) then exportUsersAndTokens (connector e) r1
                 else Inr r1) of
             Inl err \<Rightarrow> Inl (Wrapped ''failed to export users/tokens: '' err)
           | Inr r2 \<Rightarrow>
               (case (if IncludeAbilities (config e) then exportAbilities (connector e) r2
                      else Inr r2) of
                  Inl err \<Rightarrow> Inl (Wrapped ''failed to export abilities: '' err)
                | Inr r3 \<Rightarrow> Inr r3)))"

section \<open>Keys made from tokens\<close>

definition exampleToken :: Token where
  "exampleToken =
     \<lparr>tok_ID = 456, tok_UserID = 123, tok_Key = ''sk-token'', tok_Status = 1, tok_Name = ''main'',
      tok_ExpiredTime = 1767139200, tok_RemainQuota = 500, tok_UnlimitedQuota = False,
      tok_ModelLimitsEnabled = False, tok_ModelLimits = [], tok_AllowIPs = None,
      tok_UsedQuota = 20, tok_Group = ''default''\<rparr>"

text \<open>
  Claim C4. The key made from a token has its quota limit and its quota used set, to the
  remaining and the used quota of the token, if and only if the token is not flagged as
  having unlimited quota; for an unlimited token both are unset.
\<close>

theorem tokenToKey_quota:
  "(k_QuotaLimit (tokenToKey token masterRef) \<noteq> None
      \<and> k_QuotaUsed (tokenToKey token masterRef) \<noteq> None
      \<longleftrightarrow> \<not> tok_UnlimitedQuota token)
   \<and> (\<not> tok_UnlimitedQuota token \<longrightarrow>
        k_QuotaLimit (tokenToKey token masterRef) = Some (tok_RemainQuota token)
        \<and> k_QuotaUsed (tokenToKey token masterRef) = Some (tok_UsedQuota token))
   \<and> (tok_UnlimitedQuota token \<longrightarrow>
        k_QuotaLimit (tokenToKey token masterRef) = None
        \<and> k_QuotaUsed (tokenToKey token masterRef) = None)"
  by (simp add: tokenToKey_def Let_def split: option.split)

theorem tokenToKey_quota_witness:
  "\<not> tok_UnlimitedQuota exampleToken
   \<and> k_QuotaLimit (tokenToKey exampleToken ''bob'') = Some 500
   \<and> k_QuotaUsed (tokenToKey exampleToken ''bob'') = Some 20
   \<and> tok_UnlimitedQuota (exampleToken\<lparr>tok_UnlimitedQuota := True\<rparr>)
   \<and> k_QuotaLimit (tokenToKey (exampleToken\<lparr>tok_UnlimitedQuota := True\<rparr>) ''bob'') = None
   \<and> k_QuotaUsed (tokenToKey (exampleToken\<lparr>tok_UnlimitedQuota := True\<rparr>) ''bob'') = None"
  using tokenToKey_quota [of exampleToken "''bob''"]
    tokenToKey_quota [of "exampleToken\<lparr>tok_UnlimitedQuota := True\<rparr>" "''bob''"]
  by (simp add: exampleToken_def)

text \<open>
  Claim C5. A token whose expiry timestamp is \<open>-1\<close> or \<open>0\<close> gives a key without expiry; a
  token whose expiry timestamp is positive gives a key that expires at the instant that
  many seconds after the epoch.
\<close>

theorem tokenToKey_expiry:
  "(tok_ExpiredTime token = -1 \<or> tok_ExpiredTime token = 0 \<longrightarrow>
       k_ExpiresAt (tokenToKey token masterRef) = None)
   \<and> (0 < tok_ExpiredTime token \<longrightarrow>
       k_ExpiresAt (tokenToKey token masterRef) = Some (time_Unix (tok_ExpiredTime token) 0)
       \<and> k_ExpiresAt (tokenToKey token masterRef) = TimestampToTime (tok_ExpiredTime token))"
  by (auto simp add: tokenToKey_def Let_def TimestampToTime_def split: option.split)

theorem tokenToKey_expiry_witness:
  "k_ExpiresAt (tokenToKey (exampleToken\<lparr>tok_ExpiredTime := -1\<rparr>) ''bob'') = None
   \<and> k_ExpiresAt (tokenToKey (exampleToken\<lparr>tok_ExpiredTime := 0\<rparr>) ''bob'') = None
   \<and> 0 < tok_ExpiredTime exampleToken
   \<and> k_ExpiresAt (tokenToKey exampleToken ''bob'') = Some (time_Unix 1767139200 0)"
  using tokenToKey_expiry [of "exampleToken\<lparr>tok_ExpiredTime := -1\<rparr>" "''bob''"]
    tokenToKey_expiry [of "exampleToken\<lparr>tok_ExpiredTime := 0\<rparr>" "''bob''"]
    tokenToKey_expiry [of exampleToken "''bob''"]
  by (simp add: exampleToken_def)

text \<open>
  The guard of \<^verbatim>\<open>tokenToKey\<close> is \<^verbatim>\<open>ExpiredTime > 0\<close>: a negative timestamp other than
  \<open>-1\<close> leaves the expiry unset as well.
\<close>

lemma tokenToKey_nonpositive_timestamp:
  "tok_ExpiredTime token \<le> 0 \<Longrightarrow> k_ExpiresAt (tokenToKey token masterRef) = None"
  by (simp add: tokenToKey_def Let_def split: option.split)

section \<open>Providers made from channels\<close>

subsection \<open>The loop over the keys\<close>

text \<open>The provider that the loop of \<^verbatim>\<open>channelToProviders\<close> appends for the key at index \<open>i\<close>.\<close>

definition providerAt :: "Channel \<Rightarrow> bool \<Rightarrow> Provider \<Rightarrow> nat \<Rightarrow> string \<Rightarrow> Provider" where
  "providerAt ch isMultiKey base i key =
     base\<lparr>p_Name := (if isMultiKey \<and> i > 0 then ch_Name ch @ ''-'' @ fmt_d (int (i + 1)) else ch_Name ch),
          p_APIKey := key,
          p_MultiKeyIndex := (if isMultiKey then int (i + 1) else p_MultiKeyIndex base),
          p_OriginalName := (if isMultiKey then ch_Name ch else p_OriginalName base)\<rparr>"

lemma providersLoop_append:
  "providersLoop ch mk base i keys acc =
     acc @ map (\<lambda>(j, key). providerAt ch mk base j key) (List.enumerate i keys)"
  by (induction keys arbitrary: i acc) (simp_all add: providerAt_def Let_def)

lemma providersLoop_length:
  "length (providersLoop ch mk base i keys acc) = length acc + length keys"
  by (simp add: providersLoop_append)

lemma providersLoop_nth:
  "n < length keys \<Longrightarrow>
     providersLoop ch mk base i keys [] ! n = providerAt ch mk base (i + n) (keys ! n)"
  by (simp add: providersLoop_append nth_enumerate_eq)

subsection \<open>Splitting and trimming\<close>

lemma TrimLeftSpace_Nil: "TrimLeftSpace [] = []"
  by (simp add: TrimLeftSpace.simps leadingSpace_def spaceEncodings_def)

lemma TrimRightSpace_Nil: "TrimRightSpace [] = []"
  by (simp add: TrimRightSpace.simps trailingSpace_def spaceEncodings_def)

lemma strings_TrimSpace_Nil: "strings_TrimSpace [] = []"
  by (simp add: strings_TrimSpace_def TrimLeftSpace_Nil TrimRightSpace_Nil)

lemma appendTrimmed_filter:
  "appendTrimmed acc xs = acc @ filter (\<lambda>s. s \<noteq> []) (map strings_TrimSpace xs)"
  by (induction xs arbitrary: acc) (simp_all add: Let_def)

text \<open>
  \<^verbatim>\<open>parseGroups\<close> never returns an empty list, so \<^verbatim>\<open>groups[0]\<close> in \<^verbatim>\<open>channelToProviders\<close>
  and in \<^verbatim>\<open>checkUnmappableFields\<close> is always in range.
\<close>

lemma parseGroups_nonempty: "parseGroups grp \<noteq> []"
  by (simp add: parseGroups_def Let_def)

lemma strings_Split_Nil: "strings_Split [] sep = [[]]"
  by (simp add: strings_Split.simps)

lemma strings_Split_sep: "strings_Split (sep # s) sep = [] # strings_Split s sep"
  by (subst strings_Split.simps) simp

lemma strings_Split_other:
  assumes "c \<noteq> sep"
  shows "strings_Split (c # s) sep = (c # hd (strings_Split s sep)) # tl (strings_Split s sep)"
proof -
  have d: "dropWhile (\<lambda>c. c \<noteq> sep) (c # s) = dropWhile (\<lambda>c. c \<noteq> sep) s"
    and t: "takeWhile (\<lambda>c. c \<noteq> sep) (c # s) = c # takeWhile (\<lambda>c. c \<noteq> sep) s"
    using assms by simp_all
  show ?thesis
  proof (cases "dropWhile (\<lambda>c. c \<noteq> sep) s")
    case Nil
    have "strings_Split s sep = [s]"
      by (subst strings_Split.simps) (simp only: Nil list.case)
    moreover have "strings_Split (c # s) sep = [c # s]"
      by (subst strings_Split.simps) (simp only: d Nil list.case)
    ultimately show ?thesis by simp
  next
    case (Cons x rest)
    have "strings_Split s sep = takeWhile (\<lambda>c. c \<noteq> sep) s # strings_Split rest sep"
      by (subst strings_Split.simps) (simp only: Cons list.case)
    moreover have "strings_Split (c # s) sep =
        (c # takeWhile (\<lambda>c. c \<noteq> sep) s) # strings_Split rest sep"
      by (subst strings_Split.simps) (simp only: d t Cons list.case)
    ultimately show ?thesis by simp
  qed
qed

lemma strings_Split_nonempty: "strings_Split s sep \<noteq> []"
  by (subst strings_Split.simps) (simp split: list.split)

lemma strings_Split_append_other:
  "sep \<notin> set a \<Longrightarrow>
     strings_Split (a @ s) sep = (a @ hd (strings_Split s sep)) # tl (strings_Split s sep)"
proof (induction a)
  case Nil
  then show ?case by (simp add: strings_Split_nonempty)
next
  case (Cons c a)
  then have "c \<noteq> sep" by auto
  with Cons show ?case by (simp add: strings_Split_other)
qed

text \<open>
  A string that consists only of white space: a sequence of encodings of space runes
  (the newline is one of them).
\<close>

inductive whitespaceOnly :: "string \<Rightarrow> bool" where
  empty: "whitespaceOnly []"
| space: "e \<in> set spaceEncodings \<Longrightarrow> whitespaceOnly s \<Longrightarrow> whitespaceOnly (e @ s)"

text \<open>No encoding of a space is a proper prefix of another one.\<close>

lemma spaceEncodings_prefix_free:
  "\<forall>e \<in> set spaceEncodings. \<forall>e' \<in> set spaceEncodings. prefix e' e \<longrightarrow> e' = e"
  by code_simp

lemma spaceEncodings_newline_all:
  "\<forall>e \<in> set spaceEncodings. e = [CHR 0x0A] \<or> CHR 0x0A \<notin> set e"
  by code_simp

lemma leadingSpace_append:
  assumes "e \<in> set spaceEncodings"
  shows "leadingSpace (e @ s) = Some e"
proof -
  have "prefix e (e @ s)"
    by (rule prefixI) simp
  with assms have "\<exists>x \<in> set spaceEncodings. prefix x (e @ s)"
    by (rule bexI [rotated])
  then obtain e' where e': "leadingSpace (e @ s) = Some e'"
    unfolding leadingSpace_def by (cases "List.find (\<lambda>x. prefix x (e @ s)) spaceEncodings")
      (auto simp: find_None_iff)
  have mem: "e' \<in> set spaceEncodings" and "prefix e' (e @ s)"
    using leadingSpace_Some [OF e'] by auto
  from this(2) \<open>prefix e (e @ s)\<close> have "prefix e' e \<or> prefix e e'"
    by (rule prefix_same_cases)
  then have "e' = e"
    using spaceEncodings_prefix_free assms mem by blast
  with e' show ?thesis by simp
qed

lemma spaceEncodings_newline:
  "e \<in> set spaceEncodings \<Longrightarrow> e = [CHR 0x0A] \<or> CHR 0x0A \<notin> set e"
  using spaceEncodings_newline_all by blast

lemma TrimLeftSpace_whitespaceOnly: "whitespaceOnly s \<Longrightarrow> TrimLeftSpace s = []"
proof (induction rule: whitespaceOnly.induct)
  case empty
  show ?case by (rule TrimLeftSpace_Nil)
next
  case (space e s)
  have "TrimLeftSpace (e @ s) = TrimLeftSpace (drop (length e) (e @ s))"
    by (subst TrimLeftSpace.simps) (simp add: leadingSpace_append [OF space.hyps(1)])
  with space.IH show ?case by simp
qed

lemma strings_TrimSpace_whitespaceOnly: "whitespaceOnly s \<Longrightarrow> strings_TrimSpace s = []"
  by (simp add: strings_TrimSpace_def TrimLeftSpace_whitespaceOnly TrimRightSpace_Nil)

text \<open>The predicate is decidable: it holds when trimming on the left leaves nothing.\<close>

lemma whitespaceOnly_iff [code]: "whitespaceOnly s \<longleftrightarrow> TrimLeftSpace s = []"
proof
  assume "whitespaceOnly s"
  then show "TrimLeftSpace s = []"
    by (rule TrimLeftSpace_whitespaceOnly)
next
  assume "TrimLeftSpace s = []"
  then show "whitespaceOnly s"
  proof (induction s rule: TrimLeftSpace.induct)
    case (1 s)
    show ?case
    proof (cases "leadingSpace s")
      case None
      with "1.prems" have "s = []"
        by (simp add: TrimLeftSpace.simps [of s])
      then show ?thesis
        by (simp add: whitespaceOnly.empty)
    next
      case (Some e)
      with "1.prems" have "TrimLeftSpace (drop (length e) s) = []"
        by (simp add: TrimLeftSpace.simps [of s])
      with Some have "whitespaceOnly (drop (length e) s)"
        by (rule "1.IH")
      with leadingSpace_Some(1) [OF Some] have "whitespaceOnly (e @ drop (length e) s)"
        by (rule whitespaceOnly.space)
      moreover have "e @ drop (length e) s = s"
        using leadingSpace_Some(2) [OF Some] by (auto simp: prefix_def)
      ultimately show ?thesis
        by simp
    qed
  qed
qed

lemma whitespaceOnly_Split:
  "whitespaceOnly s \<Longrightarrow> seg \<in> set (strings_Split s (CHR 0x0A)) \<Longrightarrow> whitespaceOnly seg"
proof (induction arbitrary: seg rule: whitespaceOnly.induct)
  case empty
  then show ?case by (simp add: strings_Split_Nil whitespaceOnly.empty)
next
  case (space e s)
  show ?case
  proof (cases "e = [CHR 0x0A]")
    case True
    with space.prems have "seg = [] \<or> seg \<in> set (strings_Split s (CHR 0x0A))"
      by (simp add: strings_Split_sep)
    then show ?thesis
      using space.IH whitespaceOnly.empty by blast
  next
    case False
    then have "CHR 0x0A \<notin> set e"
      using spaceEncodings_newline [OF space.hyps(1)] by simp
    then have "strings_Split (e @ s) (CHR 0x0A) =
        (e @ hd (strings_Split s (CHR 0x0A))) # tl (strings_Split s (CHR 0x0A))"
      by (rule strings_Split_append_other)
    with space.prems
    have "seg = e @ hd (strings_Split s (CHR 0x0A)) \<or> seg \<in> set (tl (strings_Split s (CHR 0x0A)))"
      by simp
    then show ?thesis
    proof
      assume seg: "seg = e @ hd (strings_Split s (CHR 0x0A))"
      have "hd (strings_Split s (CHR 0x0A)) \<in> set (strings_Split s (CHR 0x0A))"
        by (simp add: strings_Split_nonempty)
      then have "whitespaceOnly (hd (strings_Split s (CHR 0x0A)))"
        by (rule space.IH)
      with space.hyps(1) show ?thesis
        unfolding seg by (rule whitespaceOnly.space)
    next
      assume "seg \<in> set (tl (strings_Split s (CHR 0x0A)))"
      then have "seg \<in> set (strings_Split s (CHR 0x0A))"
        by (rule list.set_sel(2) [OF strings_Split_nonempty])
      then show ?thesis by (rule space.IH)
    qed
  qed
qed

lemma parseKeys_whitespaceOnly:
  assumes "whitespaceOnly key" and "key \<noteq> []"
  shows "parseKeys key = [key]"
proof -
  have "\<forall>seg \<in> set (strings_Split key (CHR 0x0A)). strings_TrimSpace seg = []"
    using assms(1) by (blast intro: strings_TrimSpace_whitespaceOnly whitespaceOnly_Split)
  then have "filter (\<lambda>s. s \<noteq> []) (map strings_TrimSpace (strings_Split key (CHR 0x0A))) = []"
    by (simp add: filter_empty_conv)
  with assms(2) show ?thesis
    by (simp add: parseKeys_def appendTrimmed_filter)
qed

text \<open>
  The segments of a credential field as the specification describes them: split on newline,
  trim, drop the empty ones.
\<close>

definition secretSegments :: "string \<Rightarrow> string list" where
  "secretSegments key =
     filter (\<lambda>s. s \<noteq> []) (map strings_TrimSpace (strings_Split key (CHR 0x0A)))"

lemma parseKeys_segments:
  assumes "secretSegments key \<noteq> []"
  shows "parseKeys key = secretSegments key"
proof -
  have "key \<noteq> []"
    using assms by (auto simp: secretSegments_def strings_Split_Nil strings_TrimSpace_Nil)
  with assms show ?thesis
    by (simp add: parseKeys_def appendTrimmed_filter secretSegments_def)
qed

subsection \<open>The providers of one channel\<close>

lemma channelToProviders_length:
  "length (fst (channelToProviders jsonMarshal r ch)) = length (parseKeys (ch_Key ch))"
  by (simp add: channelToProviders_def Let_def providersLoop_length)

lemma channelToProviders_nth:
  fixes jsonMarshal :: "Channel \<Rightarrow> error + string" and r :: ExportResult and ch :: Channel
    and i :: nat
  assumes "i < length (parseKeys (ch_Key ch))"
  defines "p \<equiv> fst (channelToProviders jsonMarshal r ch) ! i"
  defines "multi \<equiv> 1 < length (parseKeys (ch_Key ch))"
  shows "p_APIKey p = parseKeys (ch_Key ch) ! i"
    and "p_Name p = (if multi \<and> 0 < i then ch_Name ch @ ''-'' @ fmt_d (int i + 1) else ch_Name ch)"
    and "p_IsMultiKey p = multi"
    and "p_MultiKeyIndex p = (if multi then int i + 1 else 0)"
    and "p_OriginalName p = (if multi then ch_Name ch else [])"
    and "p_Type p = fst (MapChannelType (ch_Type ch))"
    and "p_Weight p =
          (if (case ch_Weight ch of None \<Rightarrow> False | Some w \<Rightarrow> 0 < w) then sint (the (ch_Weight ch))
           else if (case ch_Priority ch of None \<Rightarrow> False | Some pr \<Rightarrow> 0 < pr) then the (ch_Priority ch)
           else 1)"
    and "p_Priority p =
          (if (case ch_Priority ch of None \<Rightarrow> False | Some pr \<Rightarrow> 0 < pr) then the (ch_Priority ch)
           else 0)"
  using assms(1) unfolding p_def multi_def
  by (simp_all add: channelToProviders_def Let_def providersLoop_nth providerAt_def add.commute)

text \<open>
  The channel of the scenario of the specification: two keys, two groups, no weight and no
  priority.
\<close>

definition acme :: Channel where
  "acme =
     \<lparr>ch_ID = 7, ch_Type = 1, ch_Key = ''sk-a'' @ [CHR 0x0A] @ ''sk-b'', ch_Status = 1,
      ch_Name = ''acme'', ch_Weight = None, ch_BaseURL = None, ch_Models = ''gpt-4'',
      ch_Group = ''default,vip'', ch_ModelMapping = None, ch_StatusCodeMapping = None,
      ch_Priority = None, ch_AutoBan = None, ch_Setting = None, ch_ParamOverride = None,
      ch_HeaderOverride = None\<rparr>"

text \<open>A stand-in for \<^verbatim>\<open>json.Marshal\<close>, and the result that a new exporter starts from.\<close>

definition sampleMarshal :: "Channel \<Rightarrow> error + string" where
  "sampleMarshal ch = Inr ''{}''"

definition emptyResult :: ExportResult where
  "emptyResult = NewExportResult (time_Unix 0 0)"

text \<open>
  Claim C2. When the credential field of a channel splits (on newline, trimmed, empty
  segments dropped) into \<open>k \<ge> 1\<close> segments, \<^verbatim>\<open>channelToProviders\<close> emits exactly \<open>k\<close>
  providers, whose keys are the segments in order; the first keeps the name of the channel,
  and the provider at 1-based position \<open>i > 1\<close> is named with the suffix \<open>-i\<close>. (Below, the
  list of providers is indexed from 0: the provider at index \<open>i \<ge> 1\<close> has the suffix
  \<open>-(i + 1)\<close>.)
\<close>

theorem channelToProviders_segments:
  assumes "secretSegments (ch_Key ch) = segs" and "1 \<le> length segs"
  shows "length (fst (channelToProviders jsonMarshal r ch)) = length segs
    \<and> map p_APIKey (fst (channelToProviders jsonMarshal r ch)) = segs
    \<and> p_Name (fst (channelToProviders jsonMarshal r ch) ! 0) = ch_Name ch
    \<and> (\<forall>i. 1 \<le> i \<and> i < length segs \<longrightarrow>
          p_Name (fst (channelToProviders jsonMarshal r ch) ! i)
            = ch_Name ch @ ''-'' @ fmt_d (int i + 1))"
proof -
  from assms have "secretSegments (ch_Key ch) \<noteq> []"
    by (cases segs) auto
  then have keys: "parseKeys (ch_Key ch) = segs"
    using assms(1) by (simp add: parseKeys_segments)
  have len: "length (fst (channelToProviders jsonMarshal r ch)) = length segs"
    by (simp add: channelToProviders_length keys)
  have "map p_APIKey (fst (channelToProviders jsonMarshal r ch)) = segs"
    by (rule nth_equalityI) (simp_all add: len channelToProviders_nth(1) keys)
  moreover have "0 < length (parseKeys (ch_Key ch))"
    using assms(2) keys by arith
  then have "p_Name (fst (channelToProviders jsonMarshal r ch) ! 0) = ch_Name ch"
    by (simp add: channelToProviders_nth(2))
  moreover have "p_Name (fst (channelToProviders jsonMarshal r ch) ! i)
      = ch_Name ch @ ''-'' @ fmt_d (int i + 1)" if "1 \<le> i" and "i < length segs" for i
    using that by (simp add: channelToProviders_nth(2) keys)
  ultimately show ?thesis using len by blast
qed

lemma fmt_d_2: "fmt_d 2 = ''2''"
  by code_simp

theorem channelToProviders_segments_witness:
  "secretSegments (ch_Key acme) = [''sk-a'', ''sk-b'']
   \<and> length (fst (channelToProviders sampleMarshal emptyResult acme)) = 2
   \<and> map p_APIKey (fst (channelToProviders sampleMarshal emptyResult acme)) = [''sk-a'', ''sk-b'']
   \<and> p_Name (fst (channelToProviders sampleMarshal emptyResult acme) ! 0) = ''acme''
   \<and> p_Name (fst (channelToProviders sampleMarshal emptyResult acme) ! 1) = ''acme-2''"
proof -
  have segs: "secretSegments (ch_Key acme) = [''sk-a'', ''sk-b'']"
    by code_simp
  have name: "ch_Name acme = ''acme''"
    by (simp add: acme_def)
  show ?thesis
    using channelToProviders_segments [OF segs, of sampleMarshal emptyResult] segs
    by (simp add: name fmt_d_2)
qed

text \<open>
  A credential field that is not empty and consists only of white space: the fallback of
  \<^verbatim>\<open>parseKeys\<close> returns the field as it is, so the channel gives exactly one provider,
  whose key is the raw, untrimmed field.
\<close>

lemma channelToProviders_blank_key:
  assumes "whitespaceOnly (ch_Key ch)" and "ch_Key ch \<noteq> []"
  shows "map p_APIKey (fst (channelToProviders jsonMarshal r ch)) = [ch_Key ch]"
proof -
  from assms have keys: "parseKeys (ch_Key ch) = [ch_Key ch]"
    by (simp add: parseKeys_whitespaceOnly)
  have len: "length (fst (channelToProviders jsonMarshal r ch)) = 1"
    by (simp add: channelToProviders_length keys)
  show ?thesis
    by (rule nth_equalityI) (simp_all add: len channelToProviders_nth(1) keys)
qed

text \<open>A credential field of white space: a space, a newline, a tab and U+00A0.\<close>

definition blankKey :: string where
  "blankKey = [CHR 0x20, CHR 0x0A, CHR 0x09, CHR 0xC2, CHR 0xA0]"

lemma whitespaceOnly_blankKey: "whitespaceOnly blankKey"
proof -
  have "whitespaceOnly ([CHR 0x20] @ [CHR 0x0A] @ [CHR 0x09] @ [CHR 0xC2, CHR 0xA0] @ [])"
    by (intro whitespaceOnly.intros) (simp_all add: spaceEncodings_def)
  then show ?thesis by (simp add: blankKey_def)
qed

lemma channelToProviders_blankKey:
  "map p_APIKey (fst (channelToProviders sampleMarshal emptyResult (acme\<lparr>ch_Key := blankKey\<rparr>)))
     = [blankKey]"
  using channelToProviders_blank_key [of "acme\<lparr>ch_Key := blankKey\<rparr>" sampleMarshal emptyResult]
    whitespaceOnly_blankKey
  by (simp add: blankKey_def)

text \<open>
  A credential field that is not empty always gives at least one provider; the empty one
  gives none, because \<^verbatim>\<open>parseKeys\<close> returns \<^verbatim>\<open>nil\<close> for it before it splits.
\<close>

lemma parseKeys_nonempty: "key \<noteq> [] \<Longrightarrow> parseKeys key \<noteq> []"
  by (simp add: parseKeys_def Let_def)

lemma channelToProviders_nonempty:
  "ch_Key ch \<noteq> [] \<Longrightarrow> fst (channelToProviders jsonMarshal r ch) \<noteq> []"
  using channelToProviders_length [of jsonMarshal r ch] parseKeys_nonempty [of "ch_Key ch"]
  by auto

lemma channelToProviders_no_key:
  "ch_Key ch = [] \<Longrightarrow> fst (channelToProviders jsonMarshal r ch) = []"
  using channelToProviders_length [of jsonMarshal r ch] by (simp add: parseKeys_def)

text \<open>
  A channel with an empty credential field and a single group, and a database that holds
  this channel only.
\<close>

definition keyless :: Channel where
  "keyless = acme\<lparr>ch_Key := [], ch_Group := ''default''\<rparr>"

definition keylessConnector :: Connector where
  "keylessConnector =
     \<lparr>GetAllChannels = Inr [keyless],
      GetUsersWithTokens = Inr [],
      GetTokensByUserID = (\<lambda>userID. Inr []),
      GetAllAbilities = Inr []\<rparr>"

text \<open>
  Claim C1. The claim is that a channel whose credential field is the empty string or
  consists only of white space gives exactly one provider, whose key is the raw field.
  For the empty string the code does not do so: the channel gives no provider and no
  warning, and the result of the export of a database that holds only this channel is the
  result that the exporter started from.
\<close>

theorem channelToProviders_empty_key:
  "ch_Key keyless = []
   \<and> parseKeys (ch_Key keyless) = []
   \<and> channelToProviders sampleMarshal emptyResult keyless = ([], emptyResult)
   \<and> Export sampleMarshal (NewExporter keylessConnector DefaultExporterConfig (time_Unix 0 0))
       = Inr (NewExportResult (time_Unix 0 0))"
proof -
  have key: "ch_Key keyless = []"
    by (simp add: keyless_def)
  have keys: "parseKeys (ch_Key keyless) = []"
    by (simp add: key parseKeys_def)
  have groups: "parseGroups (ch_Group keyless) = [''default'']"
    by code_simp
  have known: "MapChannelType (ch_Type keyless) = (''openai'', True)"
    by code_simp
  have fields: "ch_Priority keyless = None" "ch_ModelMapping keyless = None"
    "ch_StatusCodeMapping keyless = None" "ch_Setting keyless = None"
    "ch_ParamOverride keyless = None" "ch_HeaderOverride keyless = None"
    by (simp_all add: keyless_def acme_def)
  have unchanged: "checkUnmappableFields r keyless = r" for r
    by (simp add: checkUnmappableFields_def fields groups nonEmptyPtr_def)
  have one: "channelToProviders sampleMarshal r keyless = ([], r)" for r
    by (simp add: channelToProviders_def keys known unchanged)
  have "channelsLoop sampleMarshal r [keyless] = r" for r
    by (simp add: one)
  then have "Export sampleMarshal (NewExporter keylessConnector DefaultExporterConfig (time_Unix 0 0))
      = Inr (NewExportResult (time_Unix 0 0))"
    by (simp add: Export_def exportChannels_def exportUsersAndTokens_def NewExporter_def
        keylessConnector_def DefaultExporterConfig_def)
  with key keys one [of emptyResult] show ?thesis
    by simp
qed

text \<open>
  Claim C7. Every provider emitted for a channel is flagged multi-key if and only if
  \<^verbatim>\<open>parseKeys\<close> found more than one secret in the credential field; its multi-key index is
  set (not zero) only when it is flagged, and is then its 1-based position; the provider
  of a channel with a single secret has the flag, the index and the original name at their
  zero values.
\<close>

theorem channelToProviders_multi_key_fields:
  assumes "i < length (fst (channelToProviders jsonMarshal r ch))"
  shows "(p_IsMultiKey (fst (channelToProviders jsonMarshal r ch) ! i)
            \<longleftrightarrow> 1 < length (parseKeys (ch_Key ch)))
    \<and> (p_MultiKeyIndex (fst (channelToProviders jsonMarshal r ch) ! i) \<noteq> 0
            \<longrightarrow> p_IsMultiKey (fst (channelToProviders jsonMarshal r ch) ! i))
    \<and> (p_IsMultiKey (fst (channelToProviders jsonMarshal r ch) ! i)
            \<longrightarrow> p_MultiKeyIndex (fst (channelToProviders jsonMarshal r ch) ! i) = int i + 1)
    \<and> (length (parseKeys (ch_Key ch)) = 1
            \<longrightarrow> \<not> p_IsMultiKey (fst (channelToProviders jsonMarshal r ch) ! i)
              \<and> p_MultiKeyIndex (fst (channelToProviders jsonMarshal r ch) ! i) = 0
              \<and> p_OriginalName (fst (channelToProviders jsonMarshal r ch) ! i) = [])"
proof -
  from assms have i: "i < length (parseKeys (ch_Key ch))"
    by (simp add: channelToProviders_length)
  show ?thesis
    by (simp add: channelToProviders_nth(3,4,5) [OF i])
qed

lemma parseKeys_acme: "parseKeys (ch_Key acme) = [''sk-a'', ''sk-b'']"
  by code_simp

lemma parseKeys_single: "parseKeys ''sk-a'' = [''sk-a'']"
  by code_simp

theorem channelToProviders_multi_key_fields_witness:
  "1 < length (fst (channelToProviders sampleMarshal emptyResult acme))
   \<and> p_IsMultiKey (fst (channelToProviders sampleMarshal emptyResult acme) ! 1)
   \<and> p_MultiKeyIndex (fst (channelToProviders sampleMarshal emptyResult acme) ! 1) = 2
   \<and> 0 < length (fst (channelToProviders sampleMarshal emptyResult (acme\<lparr>ch_Key := ''sk-a''\<rparr>)))
   \<and> \<not> p_IsMultiKey (fst (channelToProviders sampleMarshal emptyResult (acme\<lparr>ch_Key := ''sk-a''\<rparr>)) ! 0)
   \<and> p_MultiKeyIndex (fst (channelToProviders sampleMarshal emptyResult (acme\<lparr>ch_Key := ''sk-a''\<rparr>)) ! 0) = 0
   \<and> p_OriginalName (fst (channelToProviders sampleMarshal emptyResult (acme\<lparr>ch_Key := ''sk-a''\<rparr>)) ! 0) = []"
proof -
  have l2: "length (fst (channelToProviders sampleMarshal emptyResult acme)) = 2"
    by (simp add: channelToProviders_length parseKeys_acme)
  have l1: "length (fst (channelToProviders sampleMarshal emptyResult (acme\<lparr>ch_Key := ''sk-a''\<rparr>))) = 1"
    by (simp add: channelToProviders_length parseKeys_single)
  have i2: "1 < length (fst (channelToProviders sampleMarshal emptyResult acme))"
    using l2 by simp
  have i1: "0 < length (fst (channelToProviders sampleMarshal emptyResult (acme\<lparr>ch_Key := ''sk-a''\<rparr>)))"
    using l1 by simp
  show ?thesis
    using channelToProviders_multi_key_fields [OF i2] channelToProviders_multi_key_fields [OF i1]
      i1 i2
    by (simp add: parseKeys_acme parseKeys_single)
qed

text \<open>
  Claim C10. For a channel with more than one secret, the first provider, which keeps the
  bare name of the channel, is flagged multi-key too, with index 1 and the name of the
  channel as original name: every provider of the split carries the flag, its 1-based
  position and the original name.
\<close>

theorem channelToProviders_first_of_split:
  assumes "1 < length (parseKeys (ch_Key ch))"
  shows "p_Name (fst (channelToProviders jsonMarshal r ch) ! 0) = ch_Name ch
    \<and> p_IsMultiKey (fst (channelToProviders jsonMarshal r ch) ! 0)
    \<and> p_MultiKeyIndex (fst (channelToProviders jsonMarshal r ch) ! 0) = 1
    \<and> p_OriginalName (fst (channelToProviders jsonMarshal r ch) ! 0) = ch_Name ch
    \<and> (\<forall>i < length (fst (channelToProviders jsonMarshal r ch)).
          p_IsMultiKey (fst (channelToProviders jsonMarshal r ch) ! i)
          \<and> p_MultiKeyIndex (fst (channelToProviders jsonMarshal r ch) ! i) = int i + 1
          \<and> p_OriginalName (fst (channelToProviders jsonMarshal r ch) ! i) = ch_Name ch)"
proof -
  from assms have 0: "0 < length (parseKeys (ch_Key ch))"
    by linarith
  have first: "p_Name (fst (channelToProviders jsonMarshal r ch) ! 0) = ch_Name ch"
    by (simp add: channelToProviders_nth(2) [OF 0])
  have every: "p_IsMultiKey (fst (channelToProviders jsonMarshal r ch) ! i)
      \<and> p_MultiKeyIndex (fst (channelToProviders jsonMarshal r ch) ! i) = int i + 1
      \<and> p_OriginalName (fst (channelToProviders jsonMarshal r ch) ! i) = ch_Name ch"
    if "i < length (fst (channelToProviders jsonMarshal r ch))" for i
  proof -
    from that have i: "i < length (parseKeys (ch_Key ch))"
      by (simp add: channelToProviders_length)
    show ?thesis
      using assms by (simp add: channelToProviders_nth(3,4,5) [OF i])
  qed
  have "0 < length (fst (channelToProviders jsonMarshal r ch))"
    using 0 by (simp add: channelToProviders_length)
  from every [OF this] first every show ?thesis
    by simp
qed

theorem channelToProviders_first_of_split_witness:
  "1 < length (parseKeys (ch_Key acme))
   \<and> p_Name (fst (channelToProviders sampleMarshal emptyResult acme) ! 0) = ''acme''
   \<and> p_IsMultiKey (fst (channelToProviders sampleMarshal emptyResult acme) ! 0)
   \<and> p_MultiKeyIndex (fst (channelToProviders sampleMarshal emptyResult acme) ! 0) = 1
   \<and> p_OriginalName (fst (channelToProviders sampleMarshal emptyResult acme) ! 0) = ''acme''"
proof -
  have m: "1 < length (parseKeys (ch_Key acme))"
    by (simp add: parseKeys_acme)
  have name: "ch_Name acme = ''acme''"
    by (simp add: acme_def)
  show ?thesis
    using channelToProviders_first_of_split [OF m, of sampleMarshal emptyResult] m
    by (simp add: name)
qed

text \<open>
  Claim C8, as amended. The weight of every provider of a channel is the weight of the
  channel when that is present, positive and at most \<open>2\<^sup>6\<^sup>3 - 1\<close>, the largest value of the
  signed weight of a provider; when the weight of the channel is absent or zero it is the
  priority of the channel if that is present and positive, and 1 otherwise. Independently,
  the priority of the provider is the priority of the channel if that is present and
  positive, and 0 otherwise.
\<close>

theorem channelToProviders_weight_priority:
  assumes "i < length (fst (channelToProviders jsonMarshal r ch))"
  shows "(\<forall>w. ch_Weight ch = Some w \<and> 0 < w \<and> uint w \<le> 2 ^ 63 - 1 \<longrightarrow>
            p_Weight (fst (channelToProviders jsonMarshal r ch) ! i) = uint w)
    \<and> (ch_Weight ch = None \<or> ch_Weight ch = Some 0 \<longrightarrow>
            p_Weight (fst (channelToProviders jsonMarshal r ch) ! i)
              = (case ch_Priority ch of None \<Rightarrow> 1 | Some pr \<Rightarrow> if 0 < pr then pr else 1))
    \<and> p_Priority (fst (channelToProviders jsonMarshal r ch) ! i)
          = (case ch_Priority ch of None \<Rightarrow> 0 | Some pr \<Rightarrow> if 0 < pr then pr else 0)"
proof -
  from assms have i: "i < length (parseKeys (ch_Key ch))"
    by (simp add: channelToProviders_length)
  have "sint w = uint w" if "uint w \<le> 2 ^ 63 - 1" for w :: go_uint
  proof -
    have "- (2 ^ 63) \<le> (0 :: int)"
      by simp
    also have "0 \<le> uint w"
      by simp
    finally have "- (2 ^ 63) \<le> uint w" .
    moreover have "uint w < 2 ^ 63"
      using that by simp
    ultimately have "signed_take_bit 63 (uint w) = uint w"
      by (rule signed_take_bit_int_eq_self)
    then show ?thesis
      by (simp add: sint_uint)
  qed
  then show ?thesis
    by (auto simp add: channelToProviders_nth(7,8) [OF i] split: option.split)
qed

text \<open>A channel with one key and the weight \<open>2\<^sup>6\<^sup>3\<close>, which a \<^verbatim>\<open>uint\<close> holds.\<close>

definition heavy :: Channel where
  "heavy = acme\<lparr>ch_Key := ''sk-a'', ch_Weight := Some 9223372036854775808\<rparr>"

text \<open>
  Claim C8 as it is written fails for a weight that the signed \<^verbatim>\<open>int\<close> of the provider
  cannot hold: \<^verbatim>\<open>int(*ch.Weight)\<close> turns \<open>2\<^sup>6\<^sup>3\<close> into \<open>-2\<^sup>6\<^sup>3\<close>.
\<close>

theorem channelToProviders_weight_counterexample:
  "ch_Weight heavy = Some 9223372036854775808
   \<and> (0 :: go_uint) < 9223372036854775808
   \<and> uint (9223372036854775808 :: go_uint) = 9223372036854775808
   \<and> map p_Weight (fst (channelToProviders sampleMarshal emptyResult heavy))
       = [- 9223372036854775808]"
proof -
  have keys: "parseKeys (ch_Key heavy) = [''sk-a'']"
    by (simp add: heavy_def parseKeys_single)
  have len: "length (fst (channelToProviders sampleMarshal emptyResult heavy)) = 1"
    by (simp add: channelToProviders_length keys)
  have "p_Weight (fst (channelToProviders sampleMarshal emptyResult heavy) ! 0)
      = - 9223372036854775808"
    by (simp add: channelToProviders_nth(7) keys) (simp add: heavy_def)
  then have "map p_Weight (fst (channelToProviders sampleMarshal emptyResult heavy))
      = [- 9223372036854775808]"
    using len by (cases "fst (channelToProviders sampleMarshal emptyResult heavy)") auto
  then show ?thesis
    by (simp add: heavy_def)
qed

theorem channelToProviders_weight_priority_witness:
  "ch_Weight (heavy\<lparr>ch_Weight := Some 5, ch_Priority := Some 3\<rparr>) = Some 5
   \<and> (0 :: go_uint) < 5 \<and> uint (5 :: go_uint) \<le> 2 ^ 63 - 1
   \<and> p_Weight (fst (channelToProviders sampleMarshal emptyResult
          (heavy\<lparr>ch_Weight := Some 5, ch_Priority := Some 3\<rparr>)) ! 0) = 5
   \<and> p_Priority (fst (channelToProviders sampleMarshal emptyResult
          (heavy\<lparr>ch_Weight := Some 5, ch_Priority := Some 3\<rparr>)) ! 0) = 3
   \<and> p_Weight (fst (channelToProviders sampleMarshal emptyResult
          (heavy\<lparr>ch_Weight := Some 0, ch_Priority := Some 3\<rparr>)) ! 0) = 3
   \<and> p_Weight (fst (channelToProviders sampleMarshal emptyResult
          (heavy\<lparr>ch_Weight := None, ch_Priority := None\<rparr>)) ! 0) = 1
   \<and> p_Priority (fst (channelToProviders sampleMarshal emptyResult
          (heavy\<lparr>ch_Weight := None, ch_Priority := None\<rparr>)) ! 0) = 0"
proof -
  have len: "0 < length (fst (channelToProviders sampleMarshal emptyResult (heavy\<lparr>ch_Weight := w, ch_Priority := pr\<rparr>)))"
    for w pr
    by (simp add: channelToProviders_length heavy_def parseKeys_single)
  show ?thesis
    using channelToProviders_weight_priority [OF len [where w = "Some 5" and pr = "Some 3"]]
      channelToProviders_weight_priority [OF len [where w = "Some 0" and pr = "Some 3"]]
      channelToProviders_weight_priority [OF len [where w = None and pr = None]]
    by (simp add: heavy_def)
qed

subsection \<open>Warnings about a channel\<close>

text \<open>The warnings that \<^verbatim>\<open>checkUnmappableFields\<close> appends for a channel, in order.\<close>

definition unmappableWarnings :: "Channel \<Rightarrow> string list" where
  "unmappableWarnings ch =
     (case ch_Priority ch of
        None \<Rightarrow> []
      | Some priority \<Rightarrow>
          if priority \<noteq> 0
          then [channelRef ch @ '' has priority='' @ fmt_d priority
                  @ '' which is not supported in EZ-API'']
          else [])
     @ (if nonEmptyPtr (ch_ModelMapping ch)
        then [channelRef ch
                @ '' has model_mapping which is not migrated. Use EZ-API Binding instead.'']
        else [])
     @ (if nonEmptyPtr (ch_StatusCodeMapping ch)
        then [channelRef ch @ '' has status_code_mapping which is not supported in EZ-API'']
        else [])
     @ (if nonEmptyPtr (ch_Setting ch)
        then [channelRef ch @ '' has custom settings which are not migrated'']
        else [])
     @ (if nonEmptyPtr (ch_ParamOverride ch)
        then [channelRef ch @ '' has param_override which is not supported in EZ-API'']
        else [])
     @ (if nonEmptyPtr (ch_HeaderOverride ch)
        then [channelRef ch @ '' has header_override which is not supported in EZ-API'']
        else [])
     @ (if length (parseGroups (ch_Group ch)) > 1
        then [channelRef ch @ '' belongs to multiple groups ''
                @ fmt_v_strings (parseGroups (ch_Group ch))
                @ ''. Only '' @ quoted (hd (parseGroups (ch_Group ch)))
                @ '' is used as primary group. Consider creating Bindings for other groups.'']
        else [])"

lemma Warnings_emptyResult: "Warnings emptyResult = []"
  by (simp add: emptyResult_def NewExportResult_def)

lemma Warnings_if:
  "Warnings (if c then AddWarning r m else r) = Warnings r @ (if c then [m] else [])"
  by (simp add: AddWarning_def)

lemma Warnings_case:
  "Warnings (case x of None \<Rightarrow> r | Some p \<Rightarrow> if c p then AddWarning r (m p) else r) =
     Warnings r @ (case x of None \<Rightarrow> [] | Some p \<Rightarrow> if c p then [m p] else [])"
  by (simp add: AddWarning_def split: option.split)

lemma Warnings_checkUnmappableFields:
  "Warnings (checkUnmappableFields r ch) = Warnings r @ unmappableWarnings ch"
  unfolding checkUnmappableFields_def unmappableWarnings_def Let_def
  by (simp only: Warnings_if Warnings_case append_assoc)

lemma mem_if_singleton: "x \<in> set (if c then [m] else []) \<longleftrightarrow> c \<and> x = m"
  by auto

lemma mem_case_singleton:
  "x \<in> set (case y of None \<Rightarrow> [] | Some p \<Rightarrow> if c p then [m p] else [])
     \<longleftrightarrow> (\<exists>p. y = Some p \<and> c p \<and> x = m p)"
  by (cases y) auto

lemma unknownTypeWarning_fresh: "unknownTypeWarning ch \<notin> set (unmappableWarnings ch)"
  unfolding unmappableWarnings_def unknownTypeWarning_def
  by (simp add: mem_if_singleton mem_case_singleton split del: if_split)

lemma channelToProviders_snd:
  "snd (channelToProviders jsonMarshal r ch) =
     checkUnmappableFields
       (if snd (MapChannelType (ch_Type ch)) then r else AddWarning r (unknownTypeWarning ch)) ch"
  by (simp add: channelToProviders_def Let_def)

lemma MapChannelType_mapped:
  "snd (MapChannelType t) \<longleftrightarrow> t \<in> fst ` set channelTypeMapping"
proof -
  have "map_of channelTypeMapping t = None \<longleftrightarrow> t \<notin> fst ` set channelTypeMapping"
    by (rule map_of_eq_None_iff)
  then show ?thesis
    by (cases "map_of channelTypeMapping t") (simp_all add: MapChannelType_def ToProviderType_def)
qed

text \<open>A channel of a known type gets no warning about its type.\<close>

lemma channelToProviders_known_type_warnings:
  assumes "ch_Type ch \<in> fst ` set channelTypeMapping"
  shows "Warnings (snd (channelToProviders jsonMarshal r ch)) = Warnings r @ unmappableWarnings ch"
  using assms
  by (simp add: channelToProviders_snd MapChannelType_mapped Warnings_checkUnmappableFields)

text \<open>
  The mapper of channel types is a total function. For a type code that is not in the table
  it returns the type \<open>custom\<close> with the flag \<open>False\<close>; the engine then appends exactly one
  warning about the type, which names the channel by name and id and gives the code (the
  other warnings of the channel are those of the unmappable fields, and none of them is
  this one), and every provider emitted for the channel has the type \<open>custom\<close>. There is
  at least one such provider when the credential field is not empty
  (\<open>channelToProviders_nonempty\<close>).
\<close>

lemma unknown_type_providers_and_warnings:
  assumes "ch_Type ch \<notin> fst ` set channelTypeMapping"
  shows "MapChannelType (ch_Type ch) = (''custom'', False)
    \<and> length (fst (channelToProviders jsonMarshal r ch)) = length (parseKeys (ch_Key ch))
    \<and> (\<forall>i < length (fst (channelToProviders jsonMarshal r ch)).
          p_Type (fst (channelToProviders jsonMarshal r ch) ! i) = ''custom'')
    \<and> Warnings (snd (channelToProviders jsonMarshal r ch))
        = Warnings r
          @ [''Channel '' @ quoted (ch_Name ch) @ '' (ID='' @ fmt_d (ch_ID ch)
               @ '') has unknown type '' @ fmt_d (ch_Type ch) @ '', mapped to ''
               @ quoted ''custom'']
          @ unmappableWarnings ch
    \<and> ''Channel '' @ quoted (ch_Name ch) @ '' (ID='' @ fmt_d (ch_ID ch)
          @ '') has unknown type '' @ fmt_d (ch_Type ch) @ '', mapped to '' @ quoted ''custom''
        \<notin> set (unmappableWarnings ch)"
proof -
  from assms have none: "map_of channelTypeMapping (ch_Type ch) = None"
    by (simp add: map_of_eq_None_iff)
  then have mapped: "MapChannelType (ch_Type ch) = (''custom'', False)"
    by (simp add: MapChannelType_def ToProviderType_def)
  have msg: "''Channel '' @ quoted (ch_Name ch) @ '' (ID='' @ fmt_d (ch_ID ch)
      @ '') has unknown type '' @ fmt_d (ch_Type ch) @ '', mapped to '' @ quoted ''custom''
      = unknownTypeWarning ch"
    by (simp add: unknownTypeWarning_def channelRef_def)
  have types: "p_Type (fst (channelToProviders jsonMarshal r ch) ! i) = ''custom''"
    if "i < length (fst (channelToProviders jsonMarshal r ch))" for i
  proof -
    from that have "i < length (parseKeys (ch_Key ch))"
      by (simp add: channelToProviders_length)
    then show ?thesis
      by (simp add: channelToProviders_nth(6) mapped)
  qed
  have "Warnings (snd (channelToProviders jsonMarshal r ch))
      = Warnings r @ [unknownTypeWarning ch] @ unmappableWarnings ch"
    by (simp add: channelToProviders_snd mapped Warnings_checkUnmappableFields AddWarning_def)
  with mapped types show ?thesis
    unfolding msg by (simp add: channelToProviders_length unknownTypeWarning_fresh)
qed

lemma fmt_d_7: "fmt_d 7 = ''7''"
  by code_simp

lemma fmt_d_999: "fmt_d 999 = ''999''"
  by code_simp

lemma unmappableWarnings_acme:
  "unmappableWarnings (acme\<lparr>ch_Type := 999\<rparr>) =
     [''Channel '' @ quoted ''acme'' @ '' (ID=7) belongs to multiple groups [default vip]. Only ''
        @ quoted ''default''
        @ '' is used as primary group. Consider creating Bindings for other groups.'']"
  by code_simp

lemma unknown_type_acme:
  "ch_Type (acme\<lparr>ch_Type := 999\<rparr>) \<notin> fst ` set channelTypeMapping
   \<and> MapChannelType 999 = (''custom'', False)
   \<and> length (fst (channelToProviders sampleMarshal emptyResult (acme\<lparr>ch_Type := 999\<rparr>))) = 2
   \<and> p_Type (fst (channelToProviders sampleMarshal emptyResult (acme\<lparr>ch_Type := 999\<rparr>)) ! 0)
       = ''custom''
   \<and> Warnings (snd (channelToProviders sampleMarshal emptyResult (acme\<lparr>ch_Type := 999\<rparr>)))
       = [''Channel '' @ quoted ''acme'' @ '' (ID=7) has unknown type 999, mapped to ''
            @ quoted ''custom'',
          ''Channel '' @ quoted ''acme''
            @ '' (ID=7) belongs to multiple groups [default vip]. Only '' @ quoted ''default''
            @ '' is used as primary group. Consider creating Bindings for other groups.'']"
proof -
  have unknown: "ch_Type (acme\<lparr>ch_Type := 999\<rparr>) \<notin> fst ` set channelTypeMapping"
    by (simp add: channelTypeMapping_def)
  have fields: "ch_Name (acme\<lparr>ch_Type := 999\<rparr>) = ''acme''" "ch_ID (acme\<lparr>ch_Type := 999\<rparr>) = 7"
    "ch_Key (acme\<lparr>ch_Type := 999\<rparr>) = ch_Key acme"
    by (simp_all add: acme_def)
  show ?thesis
    using unknown_type_providers_and_warnings [OF unknown, of sampleMarshal emptyResult] unknown
    by (simp add: fields fmt_d_7 fmt_d_999 unmappableWarnings_acme parseKeys_acme
        Warnings_emptyResult del: One_nat_def)
qed

text \<open>
  Claim C6. The claim is that for a type code that is not in the table the mapper returns
  \<open>custom\<close> with the flag \<open>False\<close>, and that the engine appends one warning naming the
  channel and the code while still emitting the provider with the type \<open>custom\<close>. For a
  channel of unknown type whose credential field is the empty string the code appends the
  warning and emits no provider.
\<close>

theorem channelToProviders_unknown_type_empty_key:
  "ch_Type (keyless\<lparr>ch_Type := 999\<rparr>) \<notin> fst ` set channelTypeMapping
   \<and> ch_Key (keyless\<lparr>ch_Type := 999\<rparr>) = []
   \<and> MapChannelType (ch_Type (keyless\<lparr>ch_Type := 999\<rparr>)) = (''custom'', False)
   \<and> Warnings (snd (channelToProviders sampleMarshal emptyResult (keyless\<lparr>ch_Type := 999\<rparr>)))
       = [''Channel '' @ quoted ''acme'' @ '' (ID=7) has unknown type 999, mapped to ''
            @ quoted ''custom'']
   \<and> fst (channelToProviders sampleMarshal emptyResult (keyless\<lparr>ch_Type := 999\<rparr>)) = []"
proof -
  have unknown: "ch_Type (keyless\<lparr>ch_Type := 999\<rparr>) \<notin> fst ` set channelTypeMapping"
    by (simp add: channelTypeMapping_def)
  have key: "ch_Key (keyless\<lparr>ch_Type := 999\<rparr>) = []"
    by (simp add: keyless_def)
  have fields: "ch_Name (keyless\<lparr>ch_Type := 999\<rparr>) = ''acme''"
    "ch_ID (keyless\<lparr>ch_Type := 999\<rparr>) = 7"
    by (simp_all add: keyless_def acme_def)
  have others: "unmappableWarnings (keyless\<lparr>ch_Type := 999\<rparr>) = []"
    by code_simp
  show ?thesis
    using unknown_type_providers_and_warnings [OF unknown, of sampleMarshal emptyResult]
      channelToProviders_no_key [OF key, of sampleMarshal emptyResult] unknown key
    by (simp add: fields fmt_d_7 fmt_d_999 others Warnings_emptyResult)
qed

section \<open>Failures of the database\<close>

text \<open>The map from user ids to master names is only written: it does not change the result.\<close>

lemma usersLoop_masterMap:
  "usersLoop conn masterMap r users = usersLoop conn masterMap' r users"
proof (induction users arbitrary: masterMap masterMap' r)
  case Nil
  show ?case by simp
next
  case (Cons user users)
  show ?case
  proof (cases "GetTokensByUserID conn (usr_ID user)")
    case (Inl err)
    then show ?thesis by (simp add: Let_def del: fun_upd_apply) (rule Cons.IH)
  next
    case (Inr tokens)
    then show ?thesis by (simp add: Let_def del: fun_upd_apply) (rule Cons.IH)
  qed
qed

lemma usersLoop_append:
  "usersLoop conn masterMap r (before @ after) =
     usersLoop conn masterMap' (usersLoop conn masterMap r before) after"
proof (induction before arbitrary: masterMap r)
  case Nil
  show ?case by (simp add: usersLoop_masterMap [of conn masterMap r after masterMap'])
next
  case (Cons user before)
  show ?case
    by (cases "GetTokensByUserID conn (usr_ID user)") (simp_all add: Let_def Cons.IH)
qed

lemma usersLoop_failed_tokens:
  assumes "GetTokensByUserID conn (usr_ID user) = Inl err"
  shows "usersLoop conn masterMap r (user # after) =
      usersLoop conn masterMap' (AddWarning (AddMaster r (userToMaster user)) (tokensWarning user err))
        after"
  using assms
  by (simp add: Let_def del: fun_upd_apply) (rule usersLoop_masterMap)

subsection \<open>What the loop over the users adds to the result\<close>

text \<open>
  The keys and the warning that the loop of \<^verbatim>\<open>exportUsersAndTokens\<close> adds for one user:
  a key for each token when the tokens can be fetched, and nothing but a warning when they
  cannot.
\<close>

definition userKeys :: "Connector \<Rightarrow> User \<Rightarrow> Key list" where
  "userKeys conn user =
     (case GetTokensByUserID conn (usr_ID user) of
        Inl err \<Rightarrow> []
      | Inr tokens \<Rightarrow> map (\<lambda>token. tokenToKey token (usr_Username user)) tokens)"

definition userWarnings :: "Connector \<Rightarrow> User \<Rightarrow> string list" where
  "userWarnings conn user =
     (case GetTokensByUserID conn (usr_ID user) of
        Inl err \<Rightarrow>
          [''Failed to get tokens for user '' @ quoted (usr_Username user) @ '' (ID=''
             @ fmt_d (usr_ID user) @ ''): '' @ Error err]
      | Inr tokens \<Rightarrow> [])"

lemma foldl_AddKey:
  "Keys (Data (foldl (\<lambda>r token. AddKey r (f token)) r tokens)) = Keys (Data r) @ map f tokens"
  "Masters (Data (foldl (\<lambda>r token. AddKey r (f token)) r tokens)) = Masters (Data r)"
  "Warnings (foldl (\<lambda>r token. AddKey r (f token)) r tokens) = Warnings r"
  by (induction tokens arbitrary: r) (simp_all add: AddKey_def)

lemma usersLoop_adds:
  "Masters (Data (usersLoop conn masterMap r users)) = Masters (Data r) @ map userToMaster users"
  "Keys (Data (usersLoop conn masterMap r users)) = Keys (Data r) @ concat (map (userKeys conn) users)"
  "Warnings (usersLoop conn masterMap r users) = Warnings r @ concat (map (userWarnings conn) users)"
proof (induction users arbitrary: masterMap r)
  case Nil
  {
    case 1 show ?case by simp
  next
    case 2 show ?case by simp
  next
    case 3 show ?case by simp
  }
next
  case (Cons user users)
  {
    case 1
    show ?case
      by (cases "GetTokensByUserID conn (usr_ID user)")
        (simp_all add: Let_def Cons.IH(1) AddMaster_def AddWarning_def foldl_AddKey
          del: fun_upd_apply)
  next
    case 2
    show ?case
      by (cases "GetTokensByUserID conn (usr_ID user)")
        (simp_all add: Let_def Cons.IH(2) AddMaster_def AddWarning_def foldl_AddKey userKeys_def
          userToMaster_def del: fun_upd_apply)
  next
    case 3
    show ?case
      by (cases "GetTokensByUserID conn (usr_ID user)")
        (simp_all add: Let_def Cons.IH(3) AddMaster_def AddWarning_def foldl_AddKey
          userWarnings_def tokensWarning_def del: fun_upd_apply)
  }
qed

text \<open>The channels add providers and warnings, the abilities add bindings: nothing else.\<close>

lemma Data_if: "Data (if c then AddWarning r m else r) = Data r"
  by (simp add: AddWarning_def)

lemma Data_case:
  "Data (case x of None \<Rightarrow> r | Some p \<Rightarrow> if c p then AddWarning r (m p) else r) = Data r"
  by (cases x) (simp_all add: AddWarning_def)

lemma Data_checkUnmappableFields: "Data (checkUnmappableFields r ch) = Data r"
  unfolding checkUnmappableFields_def Let_def
  by (simp only: Data_if Data_case)

lemma foldl_AddProvider:
  "Masters (Data (foldl AddProvider r providers)) = Masters (Data r)"
  "Keys (Data (foldl AddProvider r providers)) = Keys (Data r)"
  "Warnings (foldl AddProvider r providers) = Warnings r"
  by (induction providers arbitrary: r) (simp_all add: AddProvider_def)

lemma channelsLoop_keeps:
  "Masters (Data (channelsLoop jsonMarshal r channels)) = Masters (Data r)"
  "Keys (Data (channelsLoop jsonMarshal r channels)) = Keys (Data r)"
  by (induction channels arbitrary: r)
    (simp_all add: split_beta foldl_AddProvider channelToProviders_snd Data_checkUnmappableFields
      Data_if [of "\<not> c" for c, simplified] AddWarning_def)

lemma foldl_AddBinding:
  "Masters (Data (foldl (\<lambda>r ab. AddBinding r (f ab)) r abilities)) = Masters (Data r)"
  "Keys (Data (foldl (\<lambda>r ab. AddBinding r (f ab)) r abilities)) = Keys (Data r)"
  "Warnings (foldl (\<lambda>r ab. AddBinding r (f ab)) r abilities) = Warnings r"
  by (induction abilities arbitrary: r) (simp_all add: AddBinding_def)


subsection \<open>The claim\<close>

text \<open>Three users, and an error of the database layer.\<close>

definition alice :: User where
  "alice = \<lparr>usr_ID = 1, usr_Username = ''alice'', usr_Status = 1, usr_Email = ''alice@example.org'',
            usr_Group = ''default''\<rparr>"

definition bob :: User where
  "bob = \<lparr>usr_ID = 2, usr_Username = ''bob'', usr_Status = 1, usr_Email = [],
          usr_Group = ''default''\<rparr>"

definition carol :: User where
  "carol = \<lparr>usr_ID = 3, usr_Username = ''carol'', usr_Status = 2, usr_Email = [],
            usr_Group = ''vip''\<rparr>"

definition dbDown :: error where
  "dbDown = SourceError ''connection refused''"

text \<open>
  A database in which the tokens of user 1 cannot be read, and the same database with
  user 1 between two users whose tokens can be read.
\<close>

definition sampleConnector :: Connector where
  "sampleConnector =
     \<lparr>GetAllChannels = Inr [acme],
      GetUsersWithTokens = Inr [alice, bob],
      GetTokensByUserID = (\<lambda>userID. if userID = 1 then Inl dbDown else Inr [exampleToken]),
      GetAllAbilities = Inr []\<rparr>"

definition threeUsers :: Connector where
  "threeUsers = sampleConnector\<lparr>GetUsersWithTokens := Inr [bob, alice, carol]\<rparr>"

text \<open>
  Claim C3. When the fetch that drives a phase fails (the channels; the users, if tokens
  are included; the abilities, if they are included), \<^verbatim>\<open>Export\<close> returns no result and an
  error that wraps the error of the fetch behind the name of the phase. When these fetches
  succeed \<^verbatim>\<open>Export\<close> returns a result, whatever the fetches of tokens do. When the tokens of
  one user cannot be fetched, \<^verbatim>\<open>Export\<close> still returns a result, and in this result: the
  warnings of the user phase hold, at the place of this user, a warning with the name and
  id of the user and the message of the error; the masters are those the exporter started
  with, followed by one master for every user, this user and the users after it included;
  the keys are those the exporter started with, followed by the keys of the users before
  and of the users after this one, and no key of this user.
\<close>

theorem Export_fetch_failures:
  "(GetAllChannels (connector e) = Inl err \<longrightarrow>
      Export jsonMarshal e = Inl (Wrapped ''failed to export channels: '' err))
   \<and> (GetAllChannels (connector e) = Inr channels \<and> IncludeTokens (config e)
        \<and> GetUsersWithTokens (connector e) = Inl err \<longrightarrow>
      Export jsonMarshal e =
        Inl (Wrapped ''failed to export users/tokens: '' (Wrapped ''failed to get users: '' err)))
   \<and> (GetAllChannels (connector e) = Inr channels
        \<and> (IncludeTokens (config e) \<longrightarrow> GetUsersWithTokens (connector e) = Inr users)
        \<and> IncludeAbilities (config e) \<and> GetAllAbilities (connector e) = Inl err \<longrightarrow>
      Export jsonMarshal e = Inl (Wrapped ''failed to export abilities: '' err))
   \<and> (GetAllChannels (connector e) = Inr channels
        \<and> (IncludeTokens (config e) \<longrightarrow> GetUsersWithTokens (connector e) = Inr users)
        \<and> (IncludeAbilities (config e) \<longrightarrow> GetAllAbilities (connector e) = Inr abilities) \<longrightarrow>
      (\<exists>res. Export jsonMarshal e = Inr res))
   \<and> (GetAllChannels (connector e) = Inr channels \<and> IncludeTokens (config e)
        \<and> GetUsersWithTokens (connector e) = Inr (before @ user # after)
        \<and> GetTokensByUserID (connector e) (usr_ID user) = Inl err
        \<and> (IncludeAbilities (config e) \<longrightarrow> GetAllAbilities (connector e) = Inr abilities) \<longrightarrow>
      (\<exists>res. Export jsonMarshal e = Inr res
         \<and> ''Failed to get tokens for user '' @ quoted (usr_Username user) @ '' (ID=''
              @ fmt_d (usr_ID user) @ ''): '' @ Error err \<in> set (Warnings res)
         \<and> Warnings res =
              Warnings (channelsLoop jsonMarshal (result e) channels)
              @ concat (map (userWarnings (connector e)) before)
              @ [''Failed to get tokens for user '' @ quoted (usr_Username user) @ '' (ID=''
                   @ fmt_d (usr_ID user) @ ''): '' @ Error err]
              @ concat (map (userWarnings (connector e)) after)
         \<and> Masters (Data res) =
              Masters (Data (result e)) @ map userToMaster before @ [userToMaster user]
              @ map userToMaster after
         \<and> Keys (Data res) =
              Keys (Data (result e)) @ concat (map (userKeys (connector e)) before)
              @ concat (map (userKeys (connector e)) after)))"
proof (intro conjI impI)
  assume "GetAllChannels (connector e) = Inl err"
  then show "Export jsonMarshal e = Inl (Wrapped ''failed to export channels: '' err)"
    by (simp add: Export_def exportChannels_def)
next
  assume "GetAllChannels (connector e) = Inr channels \<and> IncludeTokens (config e)
    \<and> GetUsersWithTokens (connector e) = Inl err"
  then show "Export jsonMarshal e =
      Inl (Wrapped ''failed to export users/tokens: '' (Wrapped ''failed to get users: '' err))"
    by (simp add: Export_def exportChannels_def exportUsersAndTokens_def)
next
  assume "GetAllChannels (connector e) = Inr channels
    \<and> (IncludeTokens (config e) \<longrightarrow> GetUsersWithTokens (connector e) = Inr users)
    \<and> IncludeAbilities (config e) \<and> GetAllAbilities (connector e) = Inl err"
  then show "Export jsonMarshal e = Inl (Wrapped ''failed to export abilities: '' err)"
    by (simp add: Export_def exportChannels_def exportUsersAndTokens_def exportAbilities_def)
next
  assume "GetAllChannels (connector e) = Inr channels
    \<and> (IncludeTokens (config e) \<longrightarrow> GetUsersWithTokens (connector e) = Inr users)
    \<and> (IncludeAbilities (config e) \<longrightarrow> GetAllAbilities (connector e) = Inr abilities)"
  then show "\<exists>res. Export jsonMarshal e = Inr res"
    by (simp add: Export_def exportChannels_def exportUsersAndTokens_def exportAbilities_def)
next
  assume a: "GetAllChannels (connector e) = Inr channels \<and> IncludeTokens (config e)
    \<and> GetUsersWithTokens (connector e) = Inr (before @ user # after)
    \<and> GetTokensByUserID (connector e) (usr_ID user) = Inl err
    \<and> (IncludeAbilities (config e) \<longrightarrow> GetAllAbilities (connector e) = Inr abilities)"
  define msg where "msg = ''Failed to get tokens for user '' @ quoted (usr_Username user)
    @ '' (ID='' @ fmt_d (usr_ID user) @ ''): '' @ Error err"
  define r2 where "r2 = usersLoop (connector e) Map.empty
    (channelsLoop jsonMarshal (result e) channels) (before @ user # after)"
  define res where "res = (if IncludeAbilities (config e)
    then foldl (\<lambda>r ab. AddBinding r (abilityToBinding ab)) r2 abilities else r2)"
  have export: "Export jsonMarshal e = Inr res"
    using a
    by (simp add: Export_def exportChannels_def exportUsersAndTokens_def exportAbilities_def
        res_def r2_def)
  have failed: "userWarnings (connector e) user = [msg]" "userKeys (connector e) user = []"
    using a by (simp_all add: userWarnings_def userKeys_def msg_def)
  have warnings: "Warnings res =
      Warnings (channelsLoop jsonMarshal (result e) channels)
      @ concat (map (userWarnings (connector e)) before) @ [msg]
      @ concat (map (userWarnings (connector e)) after)"
    by (simp add: res_def r2_def foldl_AddBinding usersLoop_adds failed)
  then have member: "msg \<in> set (Warnings res)"
    by simp
  have masters: "Masters (Data res) =
      Masters (Data (result e)) @ map userToMaster before @ [userToMaster user]
      @ map userToMaster after"
    by (simp add: res_def r2_def foldl_AddBinding usersLoop_adds channelsLoop_keeps)
  have keys: "Keys (Data res) =
      Keys (Data (result e)) @ concat (map (userKeys (connector e)) before)
      @ concat (map (userKeys (connector e)) after)"
    by (simp add: res_def r2_def foldl_AddBinding usersLoop_adds channelsLoop_keeps failed)
  from export member warnings masters keys
  show "\<exists>res. Export jsonMarshal e = Inr res
         \<and> ''Failed to get tokens for user '' @ quoted (usr_Username user) @ '' (ID=''
              @ fmt_d (usr_ID user) @ ''): '' @ Error err \<in> set (Warnings res)
         \<and> Warnings res =
              Warnings (channelsLoop jsonMarshal (result e) channels)
              @ concat (map (userWarnings (connector e)) before)
              @ [''Failed to get tokens for user '' @ quoted (usr_Username user) @ '' (ID=''
                   @ fmt_d (usr_ID user) @ ''): '' @ Error err]
              @ concat (map (userWarnings (connector e)) after)
         \<and> Masters (Data res) =
              Masters (Data (result e)) @ map userToMaster before @ [userToMaster user]
              @ map userToMaster after
         \<and> Keys (Data res) =
              Keys (Data (result e)) @ concat (map (userKeys (connector e)) before)
              @ concat (map (userKeys (connector e)) after)"
    unfolding msg_def by blast
qed


lemma fmt_d_1: "fmt_d 1 = ''1''"
  by code_simp

lemma k_MasterRef_tokenToKey: "k_MasterRef (tokenToKey token masterRef) = masterRef"
  by (simp add: tokenToKey_def Let_def split: option.split)

theorem Export_fetch_failures_witness:
  "Export sampleMarshal
      (NewExporter (sampleConnector\<lparr>GetAllChannels := Inl dbDown\<rparr>) DefaultExporterConfig
         (time_Unix 0 0))
     = Inl (Wrapped ''failed to export channels: '' dbDown)
   \<and> Export sampleMarshal
      (NewExporter (sampleConnector\<lparr>GetUsersWithTokens := Inl dbDown\<rparr>) DefaultExporterConfig
         (time_Unix 0 0))
     = Inl (Wrapped ''failed to export users/tokens: '' (Wrapped ''failed to get users: '' dbDown))
   \<and> Export sampleMarshal
      (NewExporter (sampleConnector\<lparr>GetAllAbilities := Inl dbDown\<rparr>)
         (DefaultExporterConfig\<lparr>IncludeAbilities := True\<rparr>) (time_Unix 0 0))
     = Inl (Wrapped ''failed to export abilities: '' dbDown)
   \<and> (\<exists>res. Export sampleMarshal (NewExporter sampleConnector DefaultExporterConfig (time_Unix 0 0))
         = Inr res)
   \<and> (\<exists>res. Export sampleMarshal (NewExporter threeUsers DefaultExporterConfig (time_Unix 0 0))
         = Inr res
        \<and> ''Failed to get tokens for user '' @ quoted ''alice''
             @ '' (ID=1): connection refused'' \<in> set (Warnings res)
        \<and> map m_Name (Masters (Data res)) = [''bob'', ''alice'', ''carol'']
        \<and> map k_MasterRef (Keys (Data res)) = [''bob'', ''carol''])"
proof -
  have 1: "Export sampleMarshal
      (NewExporter (sampleConnector\<lparr>GetAllChannels := Inl dbDown\<rparr>) DefaultExporterConfig
         (time_Unix 0 0))
     = Inl (Wrapped ''failed to export channels: '' dbDown)"
    using Export_fetch_failures [where err = dbDown and jsonMarshal = sampleMarshal
        and e = "NewExporter (sampleConnector\<lparr>GetAllChannels := Inl dbDown\<rparr>)
          DefaultExporterConfig (time_Unix 0 0)", THEN conjunct1]
    by (simp add: NewExporter_def)
  have 2: "Export sampleMarshal
      (NewExporter (sampleConnector\<lparr>GetUsersWithTokens := Inl dbDown\<rparr>) DefaultExporterConfig
         (time_Unix 0 0))
     = Inl (Wrapped ''failed to export users/tokens: '' (Wrapped ''failed to get users: '' dbDown))"
    using Export_fetch_failures [where err = dbDown and jsonMarshal = sampleMarshal
        and channels = "[acme]"
        and e = "NewExporter (sampleConnector\<lparr>GetUsersWithTokens := Inl dbDown\<rparr>)
          DefaultExporterConfig (time_Unix 0 0)", THEN conjunct2, THEN conjunct1]
    by (simp add: NewExporter_def sampleConnector_def DefaultExporterConfig_def)
  have 3: "Export sampleMarshal
      (NewExporter (sampleConnector\<lparr>GetAllAbilities := Inl dbDown\<rparr>)
         (DefaultExporterConfig\<lparr>IncludeAbilities := True\<rparr>) (time_Unix 0 0))
     = Inl (Wrapped ''failed to export abilities: '' dbDown)"
    using Export_fetch_failures [where err = dbDown and jsonMarshal = sampleMarshal
        and channels = "[acme]" and users = "[alice, bob]"
        and e = "NewExporter (sampleConnector\<lparr>GetAllAbilities := Inl dbDown\<rparr>)
          (DefaultExporterConfig\<lparr>IncludeAbilities := True\<rparr>) (time_Unix 0 0)",
        THEN conjunct2, THEN conjunct2, THEN conjunct1]
    by (simp add: NewExporter_def sampleConnector_def DefaultExporterConfig_def)
  have 4: "\<exists>res. Export sampleMarshal
      (NewExporter sampleConnector DefaultExporterConfig (time_Unix 0 0)) = Inr res"
    using Export_fetch_failures [where jsonMarshal = sampleMarshal
        and channels = "[acme]" and users = "[alice, bob]" and abilities = "[]"
        and e = "NewExporter sampleConnector DefaultExporterConfig (time_Unix 0 0)",
        THEN conjunct2, THEN conjunct2, THEN conjunct2, THEN conjunct1]
    by (simp add: NewExporter_def sampleConnector_def DefaultExporterConfig_def)
  have keys: "userKeys threeUsers bob = [tokenToKey exampleToken ''bob'']"
    "userKeys threeUsers carol = [tokenToKey exampleToken ''carol'']"
    by (simp_all add: userKeys_def threeUsers_def sampleConnector_def bob_def carol_def)
  have names: "m_Name (userToMaster bob) = ''bob''" "m_Name (userToMaster alice) = ''alice''"
    "m_Name (userToMaster carol) = ''carol''"
    by (simp_all add: userToMaster_def bob_def alice_def carol_def)
  have alice: "usr_Username alice = ''alice''" "usr_ID alice = 1"
    by (simp_all add: alice_def)
  have start: "Masters (Data (result (NewExporter threeUsers DefaultExporterConfig (time_Unix 0 0)))) = []"
    "Keys (Data (result (NewExporter threeUsers DefaultExporterConfig (time_Unix 0 0)))) = []"
    "connector (NewExporter threeUsers DefaultExporterConfig (time_Unix 0 0)) = threeUsers"
    by (simp_all add: NewExporter_def NewExportResult_def)
  have 5: "\<exists>res. Export sampleMarshal (NewExporter threeUsers DefaultExporterConfig (time_Unix 0 0))
         = Inr res
        \<and> ''Failed to get tokens for user '' @ quoted ''alice''
             @ '' (ID=1): connection refused'' \<in> set (Warnings res)
        \<and> map m_Name (Masters (Data res)) = [''bob'', ''alice'', ''carol'']
        \<and> map k_MasterRef (Keys (Data res)) = [''bob'', ''carol'']"
  proof -
    have "GetAllChannels threeUsers = Inr [acme] \<and> IncludeTokens DefaultExporterConfig
        \<and> GetUsersWithTokens threeUsers = Inr ([bob] @ alice # [carol])
        \<and> GetTokensByUserID threeUsers (usr_ID alice) = Inl dbDown
        \<and> (IncludeAbilities DefaultExporterConfig \<longrightarrow> GetAllAbilities threeUsers = Inr [])"
      by (simp add: threeUsers_def sampleConnector_def DefaultExporterConfig_def alice_def)
    then obtain res where
      "Export sampleMarshal (NewExporter threeUsers DefaultExporterConfig (time_Unix 0 0)) = Inr res"
      and "''Failed to get tokens for user '' @ quoted (usr_Username alice) @ '' (ID=''
              @ fmt_d (usr_ID alice) @ ''): '' @ Error dbDown \<in> set (Warnings res)"
      and "Masters (Data res) =
          Masters (Data (result (NewExporter threeUsers DefaultExporterConfig (time_Unix 0 0))))
          @ map userToMaster [bob] @ [userToMaster alice] @ map userToMaster [carol]"
      and "Keys (Data res) =
          Keys (Data (result (NewExporter threeUsers DefaultExporterConfig (time_Unix 0 0))))
          @ concat (map (userKeys (connector (NewExporter threeUsers DefaultExporterConfig
              (time_Unix 0 0)))) [bob])
          @ concat (map (userKeys (connector (NewExporter threeUsers DefaultExporterConfig
              (time_Unix 0 0)))) [carol])"
      using Export_fetch_failures [where jsonMarshal = sampleMarshal and err = dbDown
          and channels = "[acme]" and before = "[bob]" and user = alice and after = "[carol]"
          and abilities = "[]"
          and e = "NewExporter threeUsers DefaultExporterConfig (time_Unix 0 0)",
          THEN conjunct2, THEN conjunct2, THEN conjunct2, THEN conjunct2]
      unfolding start(3) NewExporter_def [of threeUsers] Exporter.simps
      by (auto simp add: NewExporter_def)
    then show ?thesis
      by (simp add: start keys names alice fmt_d_1 dbDown_def k_MasterRef_tokenToKey)
  qed
  from 1 2 3 4 5 show ?thesis
    by blast
qed

section \<open>Two runs of the exporter\<close>

text \<open>The result with its export timestamp replaced.\<close>

definition withExportedAt :: "Time \<Rightarrow> ExportResult \<Rightarrow> ExportResult" where
  "withExportedAt t r = r\<lparr>Source := (Source r)\<lparr>src_ExportedAt := t\<rparr>\<rparr>"

lemma NewExportResult_withExportedAt:
  "NewExportResult t2 = withExportedAt t2 (NewExportResult t1)"
  by (simp add: NewExportResult_def withExportedAt_def)

lemma Add_withExportedAt:
  "AddWarning (withExportedAt t r) msg = withExportedAt t (AddWarning r msg)"
  "AddProvider (withExportedAt t r) p = withExportedAt t (AddProvider r p)"
  "AddMaster (withExportedAt t r) m = withExportedAt t (AddMaster r m)"
  "AddKey (withExportedAt t r) k = withExportedAt t (AddKey r k)"
  "AddBinding (withExportedAt t r) b = withExportedAt t (AddBinding r b)"
  by (simp_all add: withExportedAt_def AddWarning_def AddProvider_def AddMaster_def AddKey_def
      AddBinding_def)

lemma if_withExportedAt:
  "(if c then AddWarning (withExportedAt t r) msg else withExportedAt t r) =
     withExportedAt t (if c then AddWarning r msg else r)"
  "(if c then withExportedAt t r else AddWarning (withExportedAt t r) msg) =
     withExportedAt t (if c then r else AddWarning r msg)"
  by (simp_all add: Add_withExportedAt)

lemma case_withExportedAt:
  "(case x of None \<Rightarrow> withExportedAt t a | Some p \<Rightarrow> withExportedAt t (f p)) =
     withExportedAt t (case x of None \<Rightarrow> a | Some p \<Rightarrow> f p)"
  by (cases x) simp_all

lemma checkUnmappableFields_withExportedAt:
  "checkUnmappableFields (withExportedAt t r) ch = withExportedAt t (checkUnmappableFields r ch)"
  unfolding checkUnmappableFields_def Let_def
  by (simp only: if_withExportedAt case_withExportedAt)

lemma channelToProviders_withExportedAt:
  "channelToProviders jsonMarshal (withExportedAt t r) ch =
     (fst (channelToProviders jsonMarshal r ch),
      withExportedAt t (snd (channelToProviders jsonMarshal r ch)))"
proof (rule prod_eqI)
  show "fst (channelToProviders jsonMarshal (withExportedAt t r) ch) =
      fst (fst (channelToProviders jsonMarshal r ch),
           withExportedAt t (snd (channelToProviders jsonMarshal r ch)))"
    by (simp add: channelToProviders_def Let_def)
  show "snd (channelToProviders jsonMarshal (withExportedAt t r) ch) =
      snd (fst (channelToProviders jsonMarshal r ch),
           withExportedAt t (snd (channelToProviders jsonMarshal r ch)))"
    by (simp add: channelToProviders_snd if_withExportedAt checkUnmappableFields_withExportedAt
        split del: if_split)
qed

lemma foldl_AddProvider_withExportedAt:
  "foldl AddProvider (withExportedAt t r) providers = withExportedAt t (foldl AddProvider r providers)"
  by (induction providers arbitrary: r) (simp_all add: Add_withExportedAt)

lemma foldl_AddKey_withExportedAt:
  "foldl (\<lambda>r token. AddKey r (f token)) (withExportedAt t r) tokens =
     withExportedAt t (foldl (\<lambda>r token. AddKey r (f token)) r tokens)"
  by (induction tokens arbitrary: r) (simp_all add: Add_withExportedAt)

lemma foldl_AddBinding_withExportedAt:
  "foldl (\<lambda>r ab. AddBinding r (f ab)) (withExportedAt t r) abilities =
     withExportedAt t (foldl (\<lambda>r ab. AddBinding r (f ab)) r abilities)"
  by (induction abilities arbitrary: r) (simp_all add: Add_withExportedAt)

lemma channelsLoop_withExportedAt:
  "channelsLoop jsonMarshal (withExportedAt t r) channels =
     withExportedAt t (channelsLoop jsonMarshal r channels)"
proof (induction channels arbitrary: r)
  case Nil
  show ?case by simp
next
  case (Cons ch channels)
  show ?case
    by (simp add: channelToProviders_withExportedAt foldl_AddProvider_withExportedAt Cons.IH
        split_beta)
qed

lemma usersLoop_withExportedAt:
  "usersLoop conn masterMap (withExportedAt t r) users =
     withExportedAt t (usersLoop conn masterMap r users)"
proof (induction users arbitrary: masterMap r)
  case Nil
  show ?case by simp
next
  case (Cons user users)
  show ?case
    by (cases "GetTokensByUserID conn (usr_ID user)")
      (simp_all add: Let_def Add_withExportedAt foldl_AddKey_withExportedAt Cons.IH
        del: fun_upd_apply)
qed

lemma exportChannels_withExportedAt:
  "exportChannels jsonMarshal conn (withExportedAt t r) =
     (case exportChannels jsonMarshal conn r of
        Inl err \<Rightarrow> Inl err
      | Inr res \<Rightarrow> Inr (withExportedAt t res))"
  by (simp add: exportChannels_def channelsLoop_withExportedAt split: sum.split)

lemma exportUsersAndTokens_withExportedAt:
  "exportUsersAndTokens conn (withExportedAt t r) =
     (case exportUsersAndTokens conn r of
        Inl err \<Rightarrow> Inl err
      | Inr res \<Rightarrow> Inr (withExportedAt t res))"
  by (simp add: exportUsersAndTokens_def usersLoop_withExportedAt split: sum.split)

lemma exportAbilities_withExportedAt:
  "exportAbilities conn (withExportedAt t r) =
     (case exportAbilities conn r of
        Inl err \<Rightarrow> Inl err
      | Inr res \<Rightarrow> Inr (withExportedAt t res))"
  by (simp add: exportAbilities_def foldl_AddBinding_withExportedAt split: sum.split)

lemma Export_withExportedAt:
  "Export jsonMarshal (e\<lparr>result := withExportedAt t (result e)\<rparr>) =
     (case Export jsonMarshal e of Inl err \<Rightarrow> Inl err | Inr res \<Rightarrow> Inr (withExportedAt t res))"
proof (cases "exportChannels jsonMarshal (connector e) (result e)")
  case (Inl err)
  then show ?thesis
    by (simp add: Export_def exportChannels_withExportedAt)
next
  case r1: (Inr r1)
  show ?thesis
  proof (cases "if IncludeTokens (config e) then exportUsersAndTokens (connector e) r1 else Inr r1")
    case (Inl err)
    then show ?thesis
      using r1
      by (simp add: Export_def exportChannels_withExportedAt exportUsersAndTokens_withExportedAt
          split: if_splits)
  next
    case r2: (Inr r2)
    show ?thesis
    proof (cases "if IncludeAbilities (config e) then exportAbilities (connector e) r2 else Inr r2")
      case (Inl err)
      then show ?thesis
        using r1 r2
        by (simp add: Export_def exportChannels_withExportedAt exportUsersAndTokens_withExportedAt
            exportAbilities_withExportedAt split: if_splits)
    next
      case (Inr r3)
      then show ?thesis
        using r1 r2
        by (simp add: Export_def exportChannels_withExportedAt exportUsersAndTokens_withExportedAt
            exportAbilities_withExportedAt split: if_splits)
    qed
  qed
qed

text \<open>
  Claim C9. Two runs of the exporter (\<^verbatim>\<open>NewExporter\<close>, then \<^verbatim>\<open>Export\<close>) on the same answers
  of the database and the same configuration, started at the instants \<open>t1\<close> and \<open>t2\<close>,
  fail with the same error or return results that differ in the export timestamp only:
  the result of the second run is the result of the first one with \<^verbatim>\<open>source.exported_at\<close>
  replaced. The JSON text is a function of the result.
\<close>

theorem Export_deterministic_up_to_timestamp:
  "Export jsonMarshal (NewExporter conn cfg t2) =
     (case Export jsonMarshal (NewExporter conn cfg t1) of
        Inl err \<Rightarrow> Inl err
      | Inr res \<Rightarrow> Inr (res\<lparr>Source := (Source res)\<lparr>src_ExportedAt := t2\<rparr>\<rparr>))"
proof -
  have "NewExporter conn cfg t2 =
      (NewExporter conn cfg t1)\<lparr>result := withExportedAt t2 (result (NewExporter conn cfg t1))\<rparr>"
    by (simp add: NewExporter_def NewExportResult_withExportedAt [of t2 t1])
  then have "Export jsonMarshal (NewExporter conn cfg t2) =
     (case Export jsonMarshal (NewExporter conn cfg t1) of
        Inl err \<Rightarrow> Inl err
      | Inr res \<Rightarrow> Inr (withExportedAt t2 res))"
    by (simp only: Export_withExportedAt)
  then show ?thesis
    by (simp only: withExportedAt_def)
qed

theorem Export_deterministic_up_to_timestamp_witness:
  "Export sampleMarshal (NewExporter sampleConnector DefaultExporterConfig (time_Unix 1767139200 0)) =
     (case Export sampleMarshal (NewExporter sampleConnector DefaultExporterConfig (time_Unix 0 0)) of
        Inl err \<Rightarrow> Inl err
      | Inr res \<Rightarrow> Inr (res\<lparr>Source := (Source res)\<lparr>src_ExportedAt := time_Unix 1767139200 0\<rparr>\<rparr>))"
  by (rule Export_deterministic_up_to_timestamp)

end
